theory Spec2Isabelle
  imports Complex_Main
begin

section \<open>GitScope: discovery and status extraction\<close>

text \<open>
  A shallow embedding of \<^verbatim>\<open>gitscope.py\<close>: the classes \<^verbatim>\<open>GitProject\<close> and
  \<^verbatim>\<open>GitScope\<close>. The program talks to three libraries (GitPython, pathlib and
  datetime); what they answer is the environment, collected in the record \<open>world\<close>.
  The methods of the program are functions of that environment and of the object they
  mutate, and they return the object as they leave it.
\<close>

subsection \<open>Errors\<close>

text \<open>The exceptions that the library calls of the program can raise.\<close>

datatype error =
    InvalidGitRepositoryError
  | NoSuchPathError
  | TypeError
  | ValueError
  | AttributeError
  | GitCommandError
  | IsADirectoryError
  | PermissionError
  | UnicodeDecodeError

subsection \<open>Paths and the directory tree\<close>

text \<open>
  A \<^verbatim>\<open>pathlib.Path\<close> is the list of its segments below the root of the tree.
  \<^verbatim>\<open>Path.parent\<close> drops the last segment (the root is its own parent),
  \<^verbatim>\<open>Path.name\<close> is the last segment (empty for the root), and \<^verbatim>\<open>p / s\<close> appends one.
\<close>

type_synonym path = "string list"

definition parent :: "path \<Rightarrow> path" where
  "parent p = butlast p"

definition path_name :: "path \<Rightarrow> string" where
  "path_name p = (if p = [] then [] else last p)"

definition joinpath :: "path \<Rightarrow> string \<Rightarrow> path" where
  "joinpath p s = p @ [s]"

text \<open>
  A text is the list of its code points (Python's \<^verbatim>\<open>str\<close>). A file carries what
  \<^verbatim>\<open>open(p, 'r', encoding='utf-8').read()\<close> gives: the decoded text or the exception.
  A directory lists its entries in the order the operating system reports them. The tree
  has files and directories only: symbolic links are outside the model.
\<close>

type_synonym pystr = "nat list"

datatype node =
    File "error + pystr"
  | Dir "(string \<times> node) list"

fun lookup :: "node \<Rightarrow> path \<Rightarrow> node option" where
  "lookup n [] = Some n"
| "lookup (File c) (s # p) = None"
| "lookup (Dir es) (s # p) = (case map_of es s of None \<Rightarrow> None | Some n \<Rightarrow> lookup n p)"

text \<open>
  \<^verbatim>\<open>Path.rglob(name)\<close> for a pattern without wildcards: pathlib walks the directories
  at and below the starting directory, each directory before its subdirectories, and in each
  one yields the entry \<open>name\<close> when \<^verbatim>\<open>exists\<close> says there is one, whatever its kind.
  A starting point that is not a directory yields nothing. Every directory of the tree can
  be listed: directories that the walk is not permitted to read are outside the model.
\<close>

fun select_from :: "string \<Rightarrow> path \<Rightarrow> node \<Rightarrow> path list" where
  "select_from pat p (File c) = []"
| "select_from pat p (Dir es) =
     (if map_of es pat \<noteq> None then [joinpath p pat] else []) @
     concat (map (\<lambda>e. select_from pat (joinpath p (fst e)) (snd e)) es)"

definition rglob :: "node \<Rightarrow> path \<Rightarrow> string \<Rightarrow> path list" where
  "rglob tree p pat =
     (case lookup tree p of
        Some (Dir es) \<Rightarrow> select_from pat p (Dir es)
      | _ \<Rightarrow> [])"

subsection \<open>Repositories as GitPython shows them\<close>

record Commit =
  hexsha :: string
  committed_date :: int

text \<open>
  What a \<^verbatim>\<open>git.Repo\<close> object answers. \<open>head_commit\<close> is \<^verbatim>\<open>repo.head.commit\<close>, absent on
  an unborn HEAD (GitPython raises ValueError there, and \<^verbatim>\<open>head.is_valid()\<close> is the test
  for it). \<open>active_branch\<close> raises TypeError on a detached HEAD. \<open>rev_list ref\<close> is the list
  of the commits reachable from \<open>ref\<close>, tip first, or the exception git gives when the
  name does not resolve or the history cannot be read.
\<close>

record Repo =
  bare :: bool
  head_commit :: "Commit option"
  active_branch :: "error + string"
  is_dirty :: "error + bool"
  rev_list :: "string \<Rightarrow> error + Commit list"

definition head_is_valid :: "Repo \<Rightarrow> bool" where
  "head_is_valid r = (head_commit r \<noteq> None)"

text \<open>
  The argument of \<^verbatim>\<open>Repo.iter_commits\<close>: nothing (HEAD), or a range \<^verbatim>\<open>a..b\<close>, which stands
  for the commits reachable from \<open>b\<close> and not from \<open>a\<close>.
\<close>

datatype rev = Head | Range string string

fun iter_commits :: "Repo \<Rightarrow> rev \<Rightarrow> error + Commit list" where
  "iter_commits r Head = rev_list r ''HEAD''"
| "iter_commits r (Range a b) =
     (case rev_list r a of
        Inl e \<Rightarrow> Inl e
      | Inr xs \<Rightarrow>
          (case rev_list r b of
             Inl e \<Rightarrow> Inl e
           | Inr ys \<Rightarrow> Inr (filter (\<lambda>c. c \<notin> set xs) ys)))"

subsection \<open>The environment\<close>

text \<open>
  \<open>fs\<close> is the directory tree, \<open>open_repo p\<close> what \<^verbatim>\<open>Repo(p)\<close> returns or raises,
  \<open>now\<close> the reading of \<^verbatim>\<open>datetime.now()\<close> and \<open>fromtimestamp\<close> the function
  \<^verbatim>\<open>datetime.fromtimestamp\<close>, both as microseconds of local time. The difference of two
  datetimes is a \<^verbatim>\<open>timedelta\<close>, whose \<^verbatim>\<open>days\<close> is the floor of the difference over a day.
  \<^verbatim>\<open>fromtimestamp\<close> raises for a timestamp outside the years that \<^verbatim>\<open>datetime\<close> can
  represent. The environment is fixed while a method runs: the clock is read as one value.
\<close>

record world =
  fs :: node
  open_repo :: "path \<Rightarrow> error + Repo"
  now :: int
  fromtimestamp :: "int \<Rightarrow> error + int"

definition timedelta_days :: "int \<Rightarrow> int" where
  "timedelta_days d = d div 86400000000"

subsection \<open>Python values and strings\<close>

text \<open>The values stored in the \<^verbatim>\<open>status\<close> dictionary of a project.\<close>

datatype pyval =
    PyNone
  | PyBool bool
  | PyInt int
  | PyStr string
  | PyDateTime int

text \<open>
  \<^verbatim>\<open>str.split()\<close> without arguments cuts a text at runs of whitespace and returns the
  words between them, none of them empty. \<open>isspace\<close> lists the code points for which
  \<^verbatim>\<open>str.isspace\<close> holds.
\<close>

definition isspace :: "nat \<Rightarrow> bool" where
  "isspace c =
     ((9 \<le> c \<and> c \<le> 13) \<or> (28 \<le> c \<and> c \<le> 32) \<or> c = 133 \<or> c = 160 \<or> c = 5760 \<or>
      (8192 \<le> c \<and> c \<le> 8202) \<or> c = 8232 \<or> c = 8233 \<or> c = 8239 \<or> c = 8287 \<or> c = 12288)"

fun split_from :: "pystr \<Rightarrow> pystr \<Rightarrow> pystr list" where
  "split_from word [] = (if word = [] then [] else [word])"
| "split_from word (c # cs) =
     (if isspace c then (if word = [] then split_from [] cs else word # split_from [] cs)
      else split_from (word @ [c]) cs)"

definition split :: "pystr \<Rightarrow> pystr list" where
  "split content = split_from [] content"

subsection \<open>GitProject\<close>

record GitProject =
  path :: path
  name :: string
  repo :: "Repo option"
  status :: "string \<rightharpoonup> pyval"
  progress :: real
  readme_score :: int

text \<open>
  \<^verbatim>\<open>analyze_readme\<close>: 0 when \<^verbatim>\<open>README.md\<close> does not exist under the project's path;
  otherwise the file is opened and read (opening a directory raises), and the score is the
  number of words over ten, at most 100.
\<close>

definition analyze_readme :: "world \<Rightarrow> GitProject \<Rightarrow> error + int" where
  "analyze_readme w self =
     (let readme_path = joinpath (path self) ''README.md'' in
      case lookup (fs w) readme_path of
        None \<Rightarrow> Inr 0
      | Some (Dir es) \<Rightarrow> Inl IsADirectoryError
      | Some (File (Inl e)) \<Rightarrow> Inl e
      | Some (File (Inr content)) \<Rightarrow>
          (let length' = int (length (split content)) in Inr (min 100 (length' div 10))))"

text \<open>
  The first part of \<^verbatim>\<open>calculate_progress\<close>: the pair of \<^verbatim>\<open>days_since_first_commit\<close> and
  \<^verbatim>\<open>days_since_last_commit\<close>. Both start at 1; every exception of the block is swallowed
  and leaves the variables as they are at that moment: the one of a project without
  repository, the one of the listing, and the one of \<^verbatim>\<open>fromtimestamp\<close> for the last listed
  commit (the oldest, read first) or for the first listed one (the tip).
\<close>

definition days_since_commits :: "world \<Rightarrow> GitProject \<Rightarrow> int \<times> int" where
  "days_since_commits w self =
     (case repo self of
        None \<Rightarrow> (1, 1)
      | Some r \<Rightarrow>
          (case iter_commits r Head of
             Inl e \<Rightarrow> (1, 1)
           | Inr commits \<Rightarrow>
               if commits \<noteq> [] then
                 (let first_commit = last commits in
                  case fromtimestamp w (committed_date first_commit) of
                    Inl e \<Rightarrow> (1, 1)
                  | Inr first_date \<Rightarrow>
                      (let days_since_first_commit = max (timedelta_days (now w - first_date)) 1;
                           last_commit = hd commits in
                       case fromtimestamp w (committed_date last_commit) of
                         Inl e \<Rightarrow> (days_since_first_commit, 1)
                       | Inr last_date \<Rightarrow>
                           (days_since_first_commit, timedelta_days (now w - last_date))))
               else (1, 1)))"

definition age_factor :: "world \<Rightarrow> GitProject \<Rightarrow> int" where
  "age_factor w self = min 100 (snd (days_since_commits w self) * 2)"

text \<open>
  The score is a Python float. Both summands are halves of integers of small size, which
  binary floating point represents and adds without rounding, so the float is the real number.
\<close>

definition calculate_progress :: "world \<Rightarrow> GitProject \<Rightarrow> real" where
  "calculate_progress w self =
     real_of_int (readme_score self) * 0.5 + real_of_int (age_factor w self) * 0.5"

text \<open>
  The comparison with \<^verbatim>\<open>origin/<branch>\<close> inside \<^verbatim>\<open>gather_info\<close>: the pair
  \<^verbatim>\<open>(commits_behind, commits_ahead)\<close>, with both at 0 when either listing raises.
\<close>

definition behind_ahead :: "Repo \<Rightarrow> string \<Rightarrow> int \<times> int" where
  "behind_ahead r branch =
     (case iter_commits r (Range branch (''origin/'' @ branch)) of
        Inl e \<Rightarrow> (0, 0)
      | Inr bs \<Rightarrow>
          (case iter_commits r (Range (''origin/'' @ branch) branch) of
             Inl e \<Rightarrow> (0, 0)
           | Inr as \<Rightarrow> (int (length bs), int (length as))))"

text \<open>
  \<^verbatim>\<open>gather_info\<close> returns the project as the method leaves it, and the exception it
  raises if it raises one: the assignments made before an exception stay. The branch, the
  dirty flag, the tip commit and the conversion of its date by \<^verbatim>\<open>fromtimestamp\<close> can each
  raise, and so can the README; the comparison with the remote cannot.
\<close>

definition gather_info :: "world \<Rightarrow> GitProject \<Rightarrow> GitProject \<times> error option" where
  "gather_info w self =
     (case repo self of
        None \<Rightarrow> (self, Some AttributeError)
      | Some r \<Rightarrow>
          if \<not> head_is_valid r then
            (self\<lparr>status := (status self)
               (''active_branch'' \<mapsto> PyStr ''-'',
                ''is_dirty'' \<mapsto> PyBool False,
                ''last_commit'' \<mapsto> PyNone,
                ''commits_behind'' \<mapsto> PyInt 0,
                ''commits_ahead'' \<mapsto> PyInt 0)\<rparr>, None)
          else
            (case active_branch r of
               Inl e \<Rightarrow> (self, Some e)
             | Inr branch \<Rightarrow>
                 (let self1 = self\<lparr>status := (status self)(''active_branch'' \<mapsto> PyStr branch)\<rparr> in
                  case is_dirty r of
                    Inl e \<Rightarrow> (self1, Some e)
                  | Inr dirty \<Rightarrow>
                      (let self2 = self1\<lparr>status := (status self1)(''is_dirty'' \<mapsto> PyBool dirty)\<rparr> in
                       case head_commit r of
                         None \<Rightarrow> (self2, Some ValueError)
                       | Some c \<Rightarrow>
                           (case fromtimestamp w (committed_date c) of
                              Inl e \<Rightarrow> (self2, Some e)
                            | Inr last_commit \<Rightarrow>
                                (let self3 = self2\<lparr>status := (status self2)
                                       (''last_commit'' \<mapsto> PyDateTime last_commit)\<rparr>;
                                     (commits_behind, commits_ahead) = behind_ahead r branch;
                                     self4 = self3\<lparr>status := (status self3)
                                       (''commits_behind'' \<mapsto> PyInt commits_behind,
                                        ''commits_ahead'' \<mapsto> PyInt commits_ahead)\<rparr>
                                 in case analyze_readme w self4 of
                                      Inl e \<Rightarrow> (self4, Some e)
                                    | Inr score \<Rightarrow>
                                        (let self5 = self4\<lparr>readme_score := score\<rparr>
                                         in (self5\<lparr>progress := calculate_progress w self5\<rparr>,
                                             None))))))))"

text \<open>
  \<^verbatim>\<open>GitProject.__init__\<close>. \<open>GitProject_new\<close> is the object after the six assignments
  that open the constructor, \<open>init_try\<close> the body of its \<^verbatim>\<open>try\<close>: the repository is
  stored in the project first, and a bare one raises after that. The handler catches
  InvalidGitRepositoryError alone and keeps the project as it is at that moment; any other
  exception leaves the constructor, and no project exists.
\<close>

definition init_try :: "world \<Rightarrow> GitProject \<Rightarrow> GitProject \<times> error option" where
  "init_try w self =
     (case open_repo w (path self) of
        Inl e \<Rightarrow> (self, Some e)
      | Inr r \<Rightarrow>
          (let self1 = self\<lparr>repo := Some r\<rparr> in
           if bare r then (self1, Some InvalidGitRepositoryError)
           else gather_info w self1))"

definition GitProject_new :: "path \<Rightarrow> GitProject" where
  "GitProject_new p =
     \<lparr>path = p, name = path_name p, repo = None, status = Map.empty,
      progress = 0, readme_score = 0\<rparr>"

definition GitProject_init :: "world \<Rightarrow> path \<Rightarrow> error + GitProject" where
  "GitProject_init w p =
     (case init_try w (GitProject_new p) of
        (self1, None) \<Rightarrow> Inr self1
      | (self1, Some e) \<Rightarrow> if e = InvalidGitRepositoryError then Inr self1 else Inl e)"

subsection \<open>GitScope\<close>

record GitScope =
  base_dir :: path
  projects :: "GitProject list"

definition GitScope_init :: "path \<Rightarrow> GitScope" where
  "GitScope_init b = \<lparr>base_dir = b, projects = []\<rparr>"

text \<open>
  \<^verbatim>\<open>scan_projects\<close>: the list is cleared, then every path that \<^verbatim>\<open>rglob(".git")\<close> yields
  gives a project for its parent directory, appended when its \<^verbatim>\<open>repo\<close> is set (a Repo
  object is true in Python). An exception of a constructor ends the loop and leaves the
  method; the scope keeps what the loop had appended.
\<close>

fun scan_loop :: "world \<Rightarrow> path list \<Rightarrow> GitScope \<Rightarrow> GitScope \<times> error option" where
  "scan_loop w [] self = (self, None)"
| "scan_loop w (p # ps) self =
     (let project_dir = parent p in
      case GitProject_init w project_dir of
        Inl e \<Rightarrow> (self, Some e)
      | Inr project \<Rightarrow>
          if repo project \<noteq> None
          then scan_loop w ps (self\<lparr>projects := projects self @ [project]\<rparr>)
          else scan_loop w ps self)"

definition scan_projects :: "world \<Rightarrow> GitScope \<Rightarrow> GitScope \<times> error option" where
  "scan_projects w self =
     scan_loop w (rglob (fs w) (base_dir self) ''.git'') (self\<lparr>projects := []\<rparr>)"

subsection \<open>Notions the properties speak of\<close>

text \<open>
  The entries below a directory, each with its path from that directory: what "every
  filesystem entry beneath the base directory" ranges over. \<open>beneath\<close> starts from a path
  of the tree; a path that does not exist has nothing beneath it.
\<close>

fun entries :: "node \<Rightarrow> (path \<times> node) list" where
  "entries (File c) = []"
| "entries (Dir es) =
     concat (map (\<lambda>e. ([fst e], snd e) #
                       map (\<lambda>qm. (fst e # fst qm, snd qm)) (entries (snd e))) es)"

definition beneath :: "node \<Rightarrow> path \<Rightarrow> (path \<times> node) list" where
  "beneath tree p = (case lookup tree p of None \<Rightarrow> [] | Some n \<Rightarrow> entries n)"

text \<open>
  The exception raised inside the \<^verbatim>\<open>try\<close> of the constructor for the directory \<open>p\<close>, and
  the project as the \<^verbatim>\<open>try\<close> leaves it.
\<close>

definition raised :: "world \<Rightarrow> path \<Rightarrow> error option" where
  "raised w p = snd (init_try w (GitProject_new p))"

definition extracted :: "world \<Rightarrow> path \<Rightarrow> GitProject" where
  "extracted w p = fst (init_try w (GitProject_new p))"

subsection \<open>Example repositories and directory trees\<close>

text \<open>
  \<^verbatim>\<open>fromtimestamp\<close> in a time zone without offset: the years 1 to 9999 convert, any other
  timestamp raises ValueError. Five commits a day apart, and one dated in the year 10000.
\<close>

definition utc :: "int \<Rightarrow> error + int" where
  "utc t = (if - 62135596800 \<le> t \<and> t \<le> 253402300799 then Inr (t * 1000000)
            else Inl ValueError)"

definition commit1 :: Commit where
  "commit1 = \<lparr>hexsha = ''c1'', committed_date = 1700000000\<rparr>"

definition commit2 :: Commit where
  "commit2 = \<lparr>hexsha = ''c2'', committed_date = 1700086400\<rparr>"

definition commit3 :: Commit where
  "commit3 = \<lparr>hexsha = ''c3'', committed_date = 1700172800\<rparr>"

definition commit4 :: Commit where
  "commit4 = \<lparr>hexsha = ''c4'', committed_date = 1700259200\<rparr>"

definition commit5 :: Commit where
  "commit5 = \<lparr>hexsha = ''c5'', committed_date = 1700345600\<rparr>"

definition commit_odd :: Commit where
  "commit_odd = \<lparr>hexsha = ''c0'', committed_date = 253402300800\<rparr>"

text \<open>
  A repository with one commit on \<^verbatim>\<open>main\<close> and no remote; the same one bare, and with a
  detached HEAD; one without commits; one that is one commit ahead of \<^verbatim>\<open>origin/main\<close>
  and two behind it; one whose oldest commit carries the date of the year 10000, and one
  whose tip does.
\<close>

definition repo_normal :: Repo where
  "repo_normal =
     \<lparr>bare = False, head_commit = Some commit1, active_branch = Inr ''main'',
      is_dirty = Inr False,
      rev_list = (\<lambda>ref. if ref = ''HEAD'' \<or> ref = ''main'' then Inr [commit1]
                        else Inl GitCommandError)\<rparr>"

definition repo_bare :: Repo where
  "repo_bare = repo_normal\<lparr>bare := True\<rparr>"

definition repo_detached :: Repo where
  "repo_detached = repo_normal\<lparr>active_branch := Inl TypeError\<rparr>"

definition repo_unborn :: Repo where
  "repo_unborn =
     \<lparr>bare = False, head_commit = None, active_branch = Inr ''main'',
      is_dirty = Inr False, rev_list = (\<lambda>ref. Inl ValueError)\<rparr>"

definition repo_tracking :: Repo where
  "repo_tracking =
     \<lparr>bare = False, head_commit = Some commit3, active_branch = Inr ''main'',
      is_dirty = Inr True,
      rev_list = (\<lambda>ref. if ref = ''HEAD'' \<or> ref = ''main'' then Inr [commit3, commit2, commit1]
                        else if ref = ''origin/main''
                          then Inr [commit5, commit4, commit2, commit1]
                        else Inl GitCommandError)\<rparr>"

definition repo_odd_root :: Repo where
  "repo_odd_root =
     \<lparr>bare = False, head_commit = Some commit1, active_branch = Inr ''main'',
      is_dirty = Inr False,
      rev_list = (\<lambda>ref. if ref = ''HEAD'' \<or> ref = ''main'' then Inr [commit1, commit_odd]
                        else Inl GitCommandError)\<rparr>"

definition repo_odd_tip :: Repo where
  "repo_odd_tip =
     \<lparr>bare = False, head_commit = Some commit_odd, active_branch = Inr ''main'',
      is_dirty = Inr False,
      rev_list = (\<lambda>ref. if ref = ''HEAD'' \<or> ref = ''main'' then Inr [commit_odd, commit1]
                        else Inl GitCommandError)\<rparr>"

text \<open>
  A text of \<open>n\<close> words: \<open>n\<close> times the letter w and a space. \<open>phrase\<close> is the text
  \<^verbatim>\<open>" Git  Scope\tscans\nrepos "\<close> with its blank, double blank, tab and newline, and
  \<open>prose n\<close> repeats it \<open>n\<close> times.
\<close>

definition words :: "nat \<Rightarrow> pystr" where
  "words n = concat (replicate n [119, 32])"

definition phrase :: pystr where
  "phrase = [32, 71, 105, 116, 32, 32, 83, 99, 111, 112, 101, 9, 115, 99, 97, 110, 115, 10,
             114, 101, 112, 111, 115, 32]"

definition prose :: "nat \<Rightarrow> pystr" where
  "prose n = concat (replicate n phrase)"

definition marker :: "string \<times> node" where
  "marker = (''.git'', Dir [])"

text \<open>
  \<open>world_bare\<close>: a bare repository \<^verbatim>\<open>mirror\<close> beside a normal one \<^verbatim>\<open>app\<close>.
  \<open>world_detached\<close>: \<^verbatim>\<open>old\<close> has a detached HEAD, \<^verbatim>\<open>app\<close> is normal.
  \<open>world_mixed\<close>: \<^verbatim>\<open>junk\<close> holds a plain file named \<^verbatim>\<open>.git\<close> that is no repository,
  \<^verbatim>\<open>app\<close> is normal. In all three the clock reads one hour after the commit.
\<close>

definition world_bare :: world where
  "world_bare =
     \<lparr>fs = Dir [(''mirror'', Dir [marker]), (''app'', Dir [marker])],
      open_repo = (\<lambda>p. if p = [''mirror''] then Inr repo_bare
                       else if p = [''app''] then Inr repo_normal
                       else Inl InvalidGitRepositoryError),
      now = 1700003600000000, fromtimestamp = utc\<rparr>"

definition world_detached :: world where
  "world_detached =
     \<lparr>fs = Dir [(''old'', Dir [marker]), (''app'', Dir [marker])],
      open_repo = (\<lambda>p. if p = [''old''] then Inr repo_detached
                       else if p = [''app''] then Inr repo_normal
                       else Inl InvalidGitRepositoryError),
      now = 1700003600000000, fromtimestamp = utc\<rparr>"

definition world_mixed :: world where
  "world_mixed =
     \<lparr>fs = Dir [(''junk'', Dir [(''.git'', File (Inr []))]), (''app'', Dir [marker])],
      open_repo = (\<lambda>p. if p = [''app''] then Inr repo_normal
                       else Inl InvalidGitRepositoryError),
      now = 1700003600000000, fromtimestamp = utc\<rparr>"

text \<open>
  \<open>world_future\<close>: the commit of \<^verbatim>\<open>app\<close> is dated one hour after the clock, and there is
  no README. \<open>world_documented\<close>: \<^verbatim>\<open>app\<close> has a README of 2000 words and a commit one
  hour old. \<open>world_unborn\<close>: \<^verbatim>\<open>new\<close> has no commit, and its \<^verbatim>\<open>README.md\<close> is a
  directory, which no one can read as a file. \<open>world_tracking\<close>: \<^verbatim>\<open>app\<close> has diverged
  from its remote and has a README of 57 words. \<open>world_stale\<close>: the commit of \<^verbatim>\<open>app\<close>
  is a hundred days old. \<open>world_plain\<close>: a tree without any marker. \<open>world_week\<close>: the
  commit of \<^verbatim>\<open>app\<close> is three and a half days old and the README is 30 times the phrase.
  \<open>world_odd_root\<close> and \<open>world_odd_tip\<close>: a README of 2000 words, the clock one hour
  after the commit of 2023, and the commit of the year 10000 as the oldest or as the tip.
  \<open>world_binary\<close>: the README of \<^verbatim>\<open>app\<close> is a file that does not decode.
  \<open>project_of r\<close> is the project \<^verbatim>\<open>app\<close> at the moment the constructor has stored the
  repository \<open>r\<close>.
\<close>

definition world_future :: world where
  "world_future =
     \<lparr>fs = Dir [(''app'', Dir [marker])],
      open_repo = (\<lambda>p. if p = [''app''] then Inr repo_normal
                       else Inl InvalidGitRepositoryError),
      now = 1699996400000000, fromtimestamp = utc\<rparr>"

definition world_documented :: world where
  "world_documented =
     \<lparr>fs = Dir [(''app'', Dir [marker, (''README.md'', File (Inr (words 2000)))])],
      open_repo = (\<lambda>p. if p = [''app''] then Inr repo_normal
                       else Inl InvalidGitRepositoryError),
      now = 1700003600000000, fromtimestamp = utc\<rparr>"

definition world_unborn :: world where
  "world_unborn =
     \<lparr>fs = Dir [(''new'', Dir [marker, (''README.md'', Dir [])])],
      open_repo = (\<lambda>p. if p = [''new''] then Inr repo_unborn
                       else Inl InvalidGitRepositoryError),
      now = 1700003600000000, fromtimestamp = utc\<rparr>"

definition world_tracking :: world where
  "world_tracking =
     \<lparr>fs = Dir [(''app'', Dir [marker, (''README.md'', File (Inr (words 57)))])],
      open_repo = (\<lambda>p. if p = [''app''] then Inr repo_tracking
                       else Inl InvalidGitRepositoryError),
      now = 1700176400000000, fromtimestamp = utc\<rparr>"

definition world_plain :: world where
  "world_plain =
     \<lparr>fs = Dir [(''notes'', Dir [(''todo.txt'', File (Inr (words 3)))])],
      open_repo = (\<lambda>p. Inl InvalidGitRepositoryError),
      now = 1700003600000000, fromtimestamp = utc\<rparr>"

definition world_stale :: world where
  "world_stale =
     \<lparr>fs = Dir [(''app'', Dir [marker])],
      open_repo = (\<lambda>p. if p = [''app''] then Inr repo_normal
                       else Inl InvalidGitRepositoryError),
      now = 1708640000000000, fromtimestamp = utc\<rparr>"

definition world_week :: world where
  "world_week =
     \<lparr>fs = Dir [(''app'', Dir [marker, (''README.md'', File (Inr (prose 30)))])],
      open_repo = (\<lambda>p. if p = [''app''] then Inr repo_normal
                       else Inl InvalidGitRepositoryError),
      now = 1700302400000000, fromtimestamp = utc\<rparr>"

definition world_odd_root :: world where
  "world_odd_root =
     \<lparr>fs = Dir [(''app'', Dir [marker, (''README.md'', File (Inr (words 2000)))])],
      open_repo = (\<lambda>p. if p = [''app''] then Inr repo_odd_root
                       else Inl InvalidGitRepositoryError),
      now = 1700003600000000, fromtimestamp = utc\<rparr>"

definition world_odd_tip :: world where
  "world_odd_tip =
     \<lparr>fs = Dir [(''app'', Dir [marker, (''README.md'', File (Inr (words 2000)))])],
      open_repo = (\<lambda>p. if p = [''app''] then Inr repo_odd_tip
                       else Inl InvalidGitRepositoryError),
      now = 1700003600000000, fromtimestamp = utc\<rparr>"

definition world_binary :: world where
  "world_binary =
     \<lparr>fs = Dir [(''app'', Dir [marker, (''README.md'', File (Inl UnicodeDecodeError))])],
      open_repo = (\<lambda>p. if p = [''app''] then Inr repo_normal
                       else Inl InvalidGitRepositoryError),
      now = 1700003600000000, fromtimestamp = utc\<rparr>"

definition project_of :: "Repo \<Rightarrow> GitProject" where
  "project_of r = (GitProject_new [''app''])\<lparr>repo := Some r\<rparr>"

section \<open>Properties\<close>

lemmas program_defs =
  scan_projects_def GitScope_init_def rglob_def joinpath_def parent_def path_name_def
  GitProject_init_def GitProject_new_def init_try_def gather_info_def head_is_valid_def
  behind_ahead_def analyze_readme_def calculate_progress_def age_factor_def
  days_since_commits_def timedelta_days_def raised_def extracted_def beneath_def

lemmas example_defs =
  utc_def commit1_def commit2_def commit3_def commit4_def commit5_def commit_odd_def
  repo_normal_def repo_bare_def repo_detached_def repo_unborn_def repo_tracking_def
  repo_odd_root_def repo_odd_tip_def marker_def world_bare_def world_detached_def
  world_mixed_def world_future_def world_documented_def world_unborn_def world_tracking_def
  world_stale_def world_plain_def world_week_def world_odd_root_def world_odd_tip_def
  world_binary_def project_of_def

subsection \<open>Words\<close>

text \<open>
  \<open>split\<close> is pinned by three equations: the empty text has no word, whitespace in front is
  skipped, and a word is a longest run of characters that are not whitespace.
\<close>

lemma split_from_run:
  "split_from word cs =
     (if word @ takeWhile (\<lambda>x. \<not> isspace x) cs = []
      then split_from [] (dropWhile (\<lambda>x. \<not> isspace x) cs)
      else (word @ takeWhile (\<lambda>x. \<not> isspace x) cs)
             # split_from [] (dropWhile (\<lambda>x. \<not> isspace x) cs))"
  by (induction cs arbitrary: word) auto

lemma split_Nil: "split [] = []"
  by (simp add: split_def)

lemma split_space: "isspace c \<Longrightarrow> split (c # cs) = split cs"
  by (simp add: split_def)

lemma split_word:
  "\<not> isspace c \<Longrightarrow>
   split (c # cs) = (c # takeWhile (\<lambda>x. \<not> isspace x) cs)
                      # split (dropWhile (\<lambda>x. \<not> isspace x) cs)"
proof -
  assume "\<not> isspace c"
  then have "split (c # cs) = split_from [c] cs" by (simp add: split_def)
  also have "\<dots> = ([c] @ takeWhile (\<lambda>x. \<not> isspace x) cs)
      # split_from [] (dropWhile (\<lambda>x. \<not> isspace x) cs)"
    by (subst split_from_run) simp
  finally show ?thesis by (simp add: split_def)
qed

lemma isspace_points:
  "isspace c \<longleftrightarrow>
     c \<in> {9..13} \<union> {28..32} \<union> {133, 160, 5760} \<union> {8192..8202}
         \<union> {8232, 8233, 8239, 8287, 12288}"
  by (auto simp: isspace_def)

lemma isspace_32: "isspace 32"
  by (simp add: isspace_def)

lemma isspace_119: "\<not> isspace 119"
  by (simp add: isspace_def)

lemma split_words: "split (words n) = replicate n [119]"
  unfolding split_def words_def
  by (induction n) (simp_all add: isspace_32 isspace_119)

lemma split_phrase:
  "split_from [] (phrase @ rest) =
     [[71, 105, 116], [83, 99, 111, 112, 101], [115, 99, 97, 110, 115],
      [114, 101, 112, 111, 115]] @ split_from [] rest"
  by (simp add: phrase_def isspace_def)

lemma split_prose:
  "split (prose n) =
     concat (replicate n [[71, 105, 116], [83, 99, 111, 112, 101], [115, 99, 97, 110, 115],
                          [114, 101, 112, 111, 115]])"
  unfolding split_def prose_def
  by (induction n) (simp_all add: split_phrase)

lemma length_split_prose: "length (split (prose n)) = 4 * n"
  by (simp add: split_prose length_concat sum_list_replicate)

subsection \<open>The README score\<close>

lemma analyze_readme_missing:
  "lookup (fs w) (joinpath (path self) ''README.md'') = None \<Longrightarrow> analyze_readme w self = Inr 0"
  by (simp add: analyze_readme_def)

lemma analyze_readme_file:
  "lookup (fs w) (joinpath (path self) ''README.md'') = Some (File (Inr content)) \<Longrightarrow>
   analyze_readme w self = Inr (min 100 (int (length (split content)) div 10))"
  by (simp add: analyze_readme_def)

lemma analyze_readme_unreadable:
  "lookup (fs w) (joinpath (path self) ''README.md'') = Some (File (Inl e)) \<Longrightarrow>
   analyze_readme w self = Inl e"
  by (simp add: analyze_readme_def)

lemma analyze_readme_directory:
  "lookup (fs w) (joinpath (path self) ''README.md'') = Some (Dir es) \<Longrightarrow>
   analyze_readme w self = Inl IsADirectoryError"
  by (simp add: analyze_readme_def)

lemma analyze_readme_status: "analyze_readme w (self\<lparr>status := st\<rparr>) = analyze_readme w self"
  by (simp add: analyze_readme_def)

lemma score_mono: "(m::nat) \<le> n \<Longrightarrow> min 100 (int m div 10) \<le> min 100 (int n div 10)"
proof -
  assume "m \<le> n"
  then have "int m div 10 \<le> int n div 10" by (intro zdiv_mono1) simp_all
  then show ?thesis by simp
qed

lemma score_saturates: "1000 \<le> (n::nat) \<Longrightarrow> min 100 (int n div 10) = 100"
proof -
  assume "1000 \<le> n"
  then have "int 1000 div 10 \<le> int n div 10" by (intro zdiv_mono1) simp_all
  then show ?thesis by simp
qed

lemma analyze_readme_range: "analyze_readme w self = Inr sc \<Longrightarrow> 0 \<le> sc \<and> sc \<le> 100"
  by (auto simp: analyze_readme_def Let_def split: option.splits node.splits sum.splits)

text \<open>
  C6, as the program has it. Whitespace is the set of code points of \<^verbatim>\<open>str.isspace\<close>, and
  the words of a text are its longest runs without whitespace. The README score is 0 when the
  project's directory has no entry \<^verbatim>\<open>README.md\<close>. When that entry is a file that decodes,
  the score is the number of its words, divided by ten without remainder and capped at 100:
  it is 100 from 1000 words on, and a text with at least as many words never scores less. When
  the entry exists and cannot be read as text, because it does not open or decode or is a
  directory, there is no score: the exception of the read leaves \<^verbatim>\<open>analyze_readme\<close>.
\<close>

theorem readme_score_words:
  "(\<forall>c. isspace c \<longleftrightarrow>
         c \<in> {9..13} \<union> {28..32} \<union> {133, 160, 5760} \<union> {8192..8202}
             \<union> {8232, 8233, 8239, 8287, 12288}) \<and>
   split [] = [] \<and>
   (\<forall>c cs. isspace c \<longrightarrow> split (c # cs) = split cs) \<and>
   (\<forall>c cs. \<not> isspace c \<longrightarrow>
      split (c # cs) = (c # takeWhile (\<lambda>x. \<not> isspace x) cs)
                         # split (dropWhile (\<lambda>x. \<not> isspace x) cs)) \<and>
   (lookup (fs w) (joinpath (path self) ''README.md'') = None \<longrightarrow> analyze_readme w self = Inr 0) \<and>
   (lookup (fs w) (joinpath (path self) ''README.md'') = Some (File (Inr content)) \<longrightarrow>
      analyze_readme w self = Inr (min 100 (int (length (split content)) div 10)) \<and>
      (1000 \<le> length (split content) \<longrightarrow> analyze_readme w self = Inr 100)) \<and>
   (lookup (fs w) (joinpath (path self) ''README.md'') = Some (File (Inr content)) \<and>
    lookup (fs w') (joinpath (path self') ''README.md'') = Some (File (Inr content')) \<and>
    length (split content) \<le> length (split content') \<longrightarrow>
      (\<exists>m n. analyze_readme w self = Inr m \<and> analyze_readme w' self' = Inr n \<and> m \<le> n)) \<and>
   (lookup (fs w) (joinpath (path self) ''README.md'') = Some (File (Inl e)) \<longrightarrow>
      analyze_readme w self = Inl e) \<and>
   (lookup (fs w) (joinpath (path self) ''README.md'') = Some (Dir es) \<longrightarrow>
      analyze_readme w self = Inl IsADirectoryError)"
proof (intro conjI impI allI)
  fix c :: nat
  show "isspace c \<longleftrightarrow>
         c \<in> {9..13} \<union> {28..32} \<union> {133, 160, 5760} \<union> {8192..8202}
             \<union> {8232, 8233, 8239, 8287, 12288}"
    by (rule isspace_points)
next
  show "split [] = []" by (rule split_Nil)
next
  fix c :: nat and cs assume "isspace c"
  then show "split (c # cs) = split cs" by (rule split_space)
next
  fix c :: nat and cs assume "\<not> isspace c"
  then show "split (c # cs) = (c # takeWhile (\<lambda>x. \<not> isspace x) cs)
                         # split (dropWhile (\<lambda>x. \<not> isspace x) cs)"
    by (rule split_word)
next
  assume "lookup (fs w) (joinpath (path self) ''README.md'') = None"
  then show "analyze_readme w self = Inr 0" by (rule analyze_readme_missing)
next
  assume f: "lookup (fs w) (joinpath (path self) ''README.md'') = Some (File (Inr content))"
  then show a: "analyze_readme w self = Inr (min 100 (int (length (split content)) div 10))"
    by (rule analyze_readme_file)
  assume "1000 \<le> length (split content)"
  then show "analyze_readme w self = Inr 100" using a by (simp add: score_saturates)
next
  assume h: "lookup (fs w) (joinpath (path self) ''README.md'') = Some (File (Inr content)) \<and>
    lookup (fs w') (joinpath (path self') ''README.md'') = Some (File (Inr content')) \<and>
    length (split content) \<le> length (split content')"
  then have a: "analyze_readme w self = Inr (min 100 (int (length (split content)) div 10))"
    by (simp add: analyze_readme_file)
  from h have b: "analyze_readme w' self' = Inr (min 100 (int (length (split content')) div 10))"
    by (simp add: analyze_readme_file)
  from h have "min 100 (int (length (split content)) div 10)
      \<le> min 100 (int (length (split content')) div 10)"
    by (intro score_mono) simp
  with a b show "\<exists>m n. analyze_readme w self = Inr m \<and> analyze_readme w' self' = Inr n \<and> m \<le> n"
    by blast
next
  assume "lookup (fs w) (joinpath (path self) ''README.md'') = Some (File (Inl e))"
  then show "analyze_readme w self = Inl e" by (rule analyze_readme_unreadable)
next
  assume "lookup (fs w) (joinpath (path self) ''README.md'') = Some (Dir es)"
  then show "analyze_readme w self = Inl IsADirectoryError" by (rule analyze_readme_directory)
qed

text \<open>
  A file named \<^verbatim>\<open>README.md\<close> exists in \<^verbatim>\<open>app\<close> and does not decode as UTF-8: the score is
  neither 0 nor a count of words, the read raises, and the exception ends the scan.
\<close>

theorem readme_that_does_not_decode_raises:
  "lookup (fs world_binary) (joinpath (path (project_of repo_normal)) ''README.md'')
     = Some (File (Inl UnicodeDecodeError)) \<and>
   analyze_readme world_binary (project_of repo_normal) = Inl UnicodeDecodeError \<and>
   scan_projects world_binary (GitScope_init [])
     = (\<lparr>base_dir = [], projects = []\<rparr>, Some UnicodeDecodeError)"
  by (simp add: program_defs example_defs)

theorem readme_score_words_witness:
  "split phrase = [[71, 105, 116], [83, 99, 111, 112, 101], [115, 99, 97, 110, 115],
                   [114, 101, 112, 111, 115]] \<and>
   lookup (fs world_bare) (joinpath (path (project_of repo_normal)) ''README.md'') = None \<and>
   analyze_readme world_bare (project_of repo_normal) = Inr 0 \<and>
   lookup (fs world_week) (joinpath (path (project_of repo_normal)) ''README.md'')
     = Some (File (Inr (prose 30))) \<and>
   length (split (prose 30)) = 120 \<and>
   analyze_readme world_week (project_of repo_normal) = Inr 12 \<and>
   lookup (fs world_documented) (joinpath (path (project_of repo_normal)) ''README.md'')
     = Some (File (Inr (words 2000))) \<and>
   length (split (words 2000)) = 2000 \<and>
   analyze_readme world_documented (project_of repo_normal) = Inr 100 \<and>
   lookup (fs world_binary) (joinpath (path (project_of repo_normal)) ''README.md'')
     = Some (File (Inl UnicodeDecodeError)) \<and>
   analyze_readme world_binary (project_of repo_normal) = Inl UnicodeDecodeError \<and>
   lookup (fs world_unborn) (joinpath (path (GitProject_new [''new''])) ''README.md'')
     = Some (Dir []) \<and>
   analyze_readme world_unborn (GitProject_new [''new'']) = Inl IsADirectoryError"
proof -
  note t = readme_score_words
  have sp: "\<And>c cs. isspace c \<Longrightarrow> split (c # cs) = split cs"
    and wd: "\<And>c cs. \<not> isspace c \<Longrightarrow>
      split (c # cs) = (c # takeWhile (\<lambda>x. \<not> isspace x) cs)
                         # split (dropWhile (\<lambda>x. \<not> isspace x) cs)"
    and nl: "split [] = []"
    and ws: "\<And>c. isspace c \<longleftrightarrow>
         c \<in> {9..13} \<union> {28..32} \<union> {133, 160, 5760} \<union> {8192..8202}
             \<union> {8232, 8233, 8239, 8287, 12288}"
    using t by blast+
  have 0: "split phrase = [[71, 105, 116], [83, 99, 111, 112, 101], [115, 99, 97, 110, 115],
                   [114, 101, 112, 111, 115]]"
    unfolding phrase_def by (simp add: sp wd nl ws)
  have a: "lookup (fs world_bare) (joinpath (path (project_of repo_normal)) ''README.md'') = None"
    by (simp add: program_defs example_defs)
  have b: "lookup (fs world_week) (joinpath (path (project_of repo_normal)) ''README.md'')
     = Some (File (Inr (prose 30)))"
    by (simp add: program_defs example_defs)
  have c: "lookup (fs world_documented) (joinpath (path (project_of repo_normal)) ''README.md'')
     = Some (File (Inr (words 2000)))"
    by (simp add: program_defs example_defs)
  have d: "lookup (fs world_binary) (joinpath (path (project_of repo_normal)) ''README.md'')
     = Some (File (Inl UnicodeDecodeError))"
    by (simp add: program_defs example_defs)
  have e: "lookup (fs world_unborn) (joinpath (path (GitProject_new [''new''])) ''README.md'')
     = Some (Dir [])"
    by (simp add: program_defs example_defs)
  have l1: "length (split (prose 30)) = 120" by (simp add: length_split_prose)
  have l2: "length (split (words 2000)) = 2000" by (simp add: split_words)
  from t [of world_bare "project_of repo_normal"] a
  have 1: "analyze_readme world_bare (project_of repo_normal) = Inr 0" by blast
  from t [of world_week "project_of repo_normal" "prose 30"] b
  have "analyze_readme world_week (project_of repo_normal)
      = Inr (min 100 (int (length (split (prose 30))) div 10))" by blast
  with l1 have 2: "analyze_readme world_week (project_of repo_normal) = Inr 12" by simp
  from t [of world_documented "project_of repo_normal" "words 2000"] c
  have "analyze_readme world_documented (project_of repo_normal)
      = Inr (min 100 (int (length (split (words 2000))) div 10))" by blast
  with l2 have 3: "analyze_readme world_documented (project_of repo_normal) = Inr 100" by simp
  from t [of world_binary "project_of repo_normal" _ _ _ _ UnicodeDecodeError] d
  have 4: "analyze_readme world_binary (project_of repo_normal) = Inl UnicodeDecodeError"
    by blast
  from t [of world_unborn "GitProject_new [''new'']" _ _ _ _ _ "[]"] e
  have 5: "analyze_readme world_unborn (GitProject_new [''new'']) = Inl IsADirectoryError"
    by blast
  from 0 a b c d e l1 l2 1 2 3 4 5 show ?thesis by blast
qed

subsection \<open>The age factor\<close>

lemma timedelta_days_floor:
  "86400000000 * timedelta_days d \<le> d \<and> d < 86400000000 * (timedelta_days d + 1)"
proof -
  have e: "86400000000 * (d div 86400000000) + d mod 86400000000 = d" by simp
  have "0 \<le> d mod 86400000000" by simp
  with e have 1: "86400000000 * (d div 86400000000) \<le> d" by linarith
  have "d mod 86400000000 < 86400000000" by simp
  with e have "d < 86400000000 * (d div 86400000000) + 86400000000" by linarith
  then have 2: "d < 86400000000 * (d div 86400000000 + 1)" by (simp add: algebra_simps)
  from 1 2 show ?thesis by (simp add: timedelta_days_def)
qed

lemma timedelta_days_unique:
  "86400000000 * k \<le> d \<Longrightarrow> d < 86400000000 * (k + 1) \<Longrightarrow> timedelta_days d = k"
proof -
  assume a: "86400000000 * k \<le> d" and b: "d < 86400000000 * (k + 1)"
  have c: "86400000000 * timedelta_days d \<le> d \<and> d < 86400000000 * (timedelta_days d + 1)"
    by (rule timedelta_days_floor)
  show ?thesis
  proof (rule ccontr)
    assume "timedelta_days d \<noteq> k"
    then consider "timedelta_days d + 1 \<le> k" | "k + 1 \<le> timedelta_days d" by linarith
    then show False
    proof cases
      case 1
      then have "86400000000 * (timedelta_days d + 1) \<le> 86400000000 * k" by simp
      with a c show False by linarith
    next
      case 2
      then have "86400000000 * (k + 1) \<le> 86400000000 * timedelta_days d" by simp
      with b c show False by linarith
    qed
  qed
qed

lemma days_listed:
  "repo self = Some r \<Longrightarrow> rev_list r ''HEAD'' = Inr (c # cs) \<Longrightarrow>
   fromtimestamp w (committed_date (last (c # cs))) = Inr t0 \<Longrightarrow>
   fromtimestamp w (committed_date c) = Inr t \<Longrightarrow>
   days_since_commits w self = (max (timedelta_days (now w - t0)) 1, timedelta_days (now w - t))"
  by (simp add: days_since_commits_def Let_def)

lemma days_failed:
  "repo self = Some r \<Longrightarrow> rev_list r ''HEAD'' = Inl e \<Longrightarrow> days_since_commits w self = (1, 1)"
  by (simp add: days_since_commits_def)

lemma days_first_date_failed:
  "repo self = Some r \<Longrightarrow> rev_list r ''HEAD'' = Inr (c # cs) \<Longrightarrow>
   fromtimestamp w (committed_date (last (c # cs))) = Inl e \<Longrightarrow>
   days_since_commits w self = (1, 1)"
  by (simp add: days_since_commits_def Let_def)

lemma days_last_date_failed:
  "repo self = Some r \<Longrightarrow> rev_list r ''HEAD'' = Inr (c # cs) \<Longrightarrow>
   fromtimestamp w (committed_date (last (c # cs))) = Inr t0 \<Longrightarrow>
   fromtimestamp w (committed_date c) = Inl e \<Longrightarrow>
   days_since_commits w self = (max (timedelta_days (now w - t0)) 1, 1)"
  by (simp add: days_since_commits_def Let_def)

lemma age_factor_update:
  "age_factor w (self\<lparr>status := st\<rparr>) = age_factor w self"
  "age_factor w (self\<lparr>readme_score := sc\<rparr>) = age_factor w self"
  "age_factor w (self\<lparr>progress := pr\<rparr>) = age_factor w self"
  by (simp_all add: age_factor_def days_since_commits_def)

text \<open>
  C7, as the program has it. When the commits are listed and the dates of the oldest and of
  the newest listed commit convert, the days since the last commit are the number \<open>d\<close> of
  whole days from the date of the tip to the clock, rounded down: \<open>d\<close> days are at most the
  difference, \<open>d + 1\<close> days are more. The age factor is twice \<open>d\<close> capped at 100: 100 from
  50 days on, twice the days below. A tip at most a day old, and not younger than the clock,
  gives 0; a tip dated after the clock gives a negative age factor, also when it is dated on
  the same day. When listing the commits raises, or the date of the oldest listed commit does
  not convert, both day counts stay 1; when only the date of the tip does not convert, the
  days since the last commit stay 1. The age factor is 2 in all three cases.
\<close>

theorem age_factor_days:
  "(repo self = Some r \<and> rev_list r ''HEAD'' = Inr (c # cs) \<and>
    fromtimestamp w (committed_date (last (c # cs))) = Inr t0 \<and>
    fromtimestamp w (committed_date c) = Inr t \<longrightarrow>
      (\<exists>d. 86400000000 * d \<le> now w - t \<and> now w - t < 86400000000 * (d + 1) \<and>
           snd (days_since_commits w self) = d \<and>
           age_factor w self = min 100 (2 * d) \<and>
           (50 \<le> d \<longrightarrow> age_factor w self = 100) \<and>
           (d < 50 \<longrightarrow> age_factor w self = 2 * d) \<and>
           (0 \<le> now w - t \<and> now w - t < 86400000000 \<longrightarrow> d = 0 \<and> age_factor w self = 0) \<and>
           (now w < t \<longrightarrow> d < 0 \<and> age_factor w self < 0))) \<and>
   (repo self = Some r \<and> rev_list r ''HEAD'' = Inl e \<longrightarrow>
      days_since_commits w self = (1, 1) \<and> age_factor w self = 2) \<and>
   (repo self = Some r \<and> rev_list r ''HEAD'' = Inr (c # cs) \<and>
    fromtimestamp w (committed_date (last (c # cs))) = Inl e \<longrightarrow>
      days_since_commits w self = (1, 1) \<and> age_factor w self = 2) \<and>
   (repo self = Some r \<and> rev_list r ''HEAD'' = Inr (c # cs) \<and>
    fromtimestamp w (committed_date (last (c # cs))) = Inr t0 \<and>
    fromtimestamp w (committed_date c) = Inl e \<longrightarrow>
      snd (days_since_commits w self) = 1 \<and> age_factor w self = 2)"
proof (intro conjI impI)
  assume h: "repo self = Some r \<and> rev_list r ''HEAD'' = Inr (c # cs) \<and>
    fromtimestamp w (committed_date (last (c # cs))) = Inr t0 \<and>
    fromtimestamp w (committed_date c) = Inr t"
  let ?d = "timedelta_days (now w - t)"
  have s: "snd (days_since_commits w self) = ?d"
    using h days_listed [of self r c cs w t0 t] by simp
  have f: "86400000000 * ?d \<le> now w - t \<and> now w - t < 86400000000 * (?d + 1)"
    by (rule timedelta_days_floor)
  have a: "age_factor w self = min 100 (2 * ?d)"
    using s by (simp add: age_factor_def mult.commute)
  have t0: "0 \<le> now w - t \<and> now w - t < 86400000000 \<longrightarrow> ?d = 0 \<and> age_factor w self = 0"
  proof
    assume "0 \<le> now w - t \<and> now w - t < 86400000000"
    then have "?d = 0" by (intro timedelta_days_unique) simp_all
    then show "?d = 0 \<and> age_factor w self = 0" using a by simp
  qed
  have n: "now w < t \<longrightarrow> ?d < 0 \<and> age_factor w self < 0"
  proof
    assume "now w < t"
    then have "?d < 0" using f by linarith
    then show "?d < 0 \<and> age_factor w self < 0" using a by simp
  qed
  from s f a t0 n
  show "\<exists>d. 86400000000 * d \<le> now w - t \<and> now w - t < 86400000000 * (d + 1) \<and>
           snd (days_since_commits w self) = d \<and>
           age_factor w self = min 100 (2 * d) \<and>
           (50 \<le> d \<longrightarrow> age_factor w self = 100) \<and>
           (d < 50 \<longrightarrow> age_factor w self = 2 * d) \<and>
           (0 \<le> now w - t \<and> now w - t < 86400000000 \<longrightarrow> d = 0 \<and> age_factor w self = 0) \<and>
           (now w < t \<longrightarrow> d < 0 \<and> age_factor w self < 0)"
    by (intro exI [of _ ?d]) simp
next
  assume h: "repo self = Some r \<and> rev_list r ''HEAD'' = Inl e"
  then show d: "days_since_commits w self = (1, 1)" by (simp add: days_failed)
  then show "age_factor w self = 2" by (simp add: age_factor_def)
next
  assume h: "repo self = Some r \<and> rev_list r ''HEAD'' = Inr (c # cs) \<and>
    fromtimestamp w (committed_date (last (c # cs))) = Inl e"
  then show d: "days_since_commits w self = (1, 1)"
    using days_first_date_failed [of self r c cs w e] by simp
  then show "age_factor w self = 2" by (simp add: age_factor_def)
next
  assume h: "repo self = Some r \<and> rev_list r ''HEAD'' = Inr (c # cs) \<and>
    fromtimestamp w (committed_date (last (c # cs))) = Inr t0 \<and>
    fromtimestamp w (committed_date c) = Inl e"
  then show d: "snd (days_since_commits w self) = 1"
    using days_last_date_failed [of self r c cs w t0 e] by simp
  then show "age_factor w self = 2" by (simp add: age_factor_def)
qed

text \<open>
  The tip of \<^verbatim>\<open>app\<close> in \<open>world_future\<close> is dated 14 November 2023, 22:13:20, and the clock
  reads 21:13:20 on the same day, which is day 19675 of the epoch for both: the tip is of
  today, and the days since the last commit are -1, the age factor -2, not 0. In
  \<open>world_odd_root\<close> the tip is one hour old and the date of the oldest commit does not
  convert: the age factor is 2, not 0.
\<close>

theorem tip_of_today_is_not_always_zero:
  "repo (project_of repo_normal) = Some repo_normal \<and>
   rev_list repo_normal ''HEAD'' = Inr [commit1] \<and>
   fromtimestamp world_future (committed_date commit1) = Inr 1700000000000000 \<and>
   now world_future = 1699996400000000 \<and>
   (1700000000000000 :: int) div 86400000000 = 19675 \<and>
   now world_future div 86400000000 = 19675 \<and>
   days_since_commits world_future (project_of repo_normal) = (1, - 1) \<and>
   age_factor world_future (project_of repo_normal) = - 2 \<and>
   rev_list repo_odd_root ''HEAD'' = Inr [commit1, commit_odd] \<and>
   fromtimestamp world_odd_root (committed_date commit1) = Inr 1700000000000000 \<and>
   now world_odd_root - 1700000000000000 = 3600000000 \<and>
   fromtimestamp world_odd_root (committed_date commit_odd) = Inl ValueError \<and>
   days_since_commits world_odd_root (project_of repo_odd_root) = (1, 1) \<and>
   age_factor world_odd_root (project_of repo_odd_root) = 2"
  by (simp add: program_defs example_defs iter_commits.simps)

theorem age_factor_days_witness:
  "repo (project_of repo_normal) = Some repo_normal \<and>
   rev_list repo_normal ''HEAD'' = Inr [commit1] \<and>
   fromtimestamp world_bare (committed_date commit1) = Inr 1700000000000000 \<and>
   now world_bare - 1700000000000000 = 3600000000 \<and>
   snd (days_since_commits world_bare (project_of repo_normal)) = 0 \<and>
   age_factor world_bare (project_of repo_normal) = 0 \<and>
   now world_week - 1700000000000000 = 302400000000 \<and>
   snd (days_since_commits world_week (project_of repo_normal)) = 3 \<and>
   age_factor world_week (project_of repo_normal) = 6 \<and>
   now world_stale - 1700000000000000 = 8640000000000 \<and>
   snd (days_since_commits world_stale (project_of repo_normal)) = 100 \<and>
   age_factor world_stale (project_of repo_normal) = 100 \<and>
   now world_future - 1700000000000000 = - 3600000000 \<and>
   snd (days_since_commits world_future (project_of repo_normal)) = - 1 \<and>
   age_factor world_future (project_of repo_normal) = - 2 \<and>
   repo (project_of repo_unborn) = Some repo_unborn \<and>
   rev_list repo_unborn ''HEAD'' = Inl ValueError \<and>
   days_since_commits world_unborn (project_of repo_unborn) = (1, 1) \<and>
   age_factor world_unborn (project_of repo_unborn) = 2 \<and>
   repo (project_of repo_odd_root) = Some repo_odd_root \<and>
   rev_list repo_odd_root ''HEAD'' = Inr [commit1, commit_odd] \<and>
   fromtimestamp world_odd_root (committed_date commit_odd) = Inl ValueError \<and>
   days_since_commits world_odd_root (project_of repo_odd_root) = (1, 1) \<and>
   age_factor world_odd_root (project_of repo_odd_root) = 2 \<and>
   repo (project_of repo_odd_tip) = Some repo_odd_tip \<and>
   rev_list repo_odd_tip ''HEAD'' = Inr [commit_odd, commit1] \<and>
   fromtimestamp world_odd_tip (committed_date commit_odd) = Inl ValueError \<and>
   snd (days_since_commits world_odd_tip (project_of repo_odd_tip)) = 1 \<and>
   age_factor world_odd_tip (project_of repo_odd_tip) = 2"
proof -
  have a: "repo (project_of repo_normal) = Some repo_normal"
    by (simp add: example_defs)
  have b: "rev_list repo_normal ''HEAD'' = Inr [commit1]"
    by (simp add: example_defs)
  have l: "last [commit1] = commit1" by simp
  have f1: "fromtimestamp world_bare (committed_date commit1) = Inr 1700000000000000"
    and f2: "fromtimestamp world_week (committed_date commit1) = Inr 1700000000000000"
    and f3: "fromtimestamp world_stale (committed_date commit1) = Inr 1700000000000000"
    and f4: "fromtimestamp world_future (committed_date commit1) = Inr 1700000000000000"
    by (simp_all add: example_defs)
  have n1: "now world_bare - 1700000000000000 = 3600000000"
    and n2: "now world_week - 1700000000000000 = 302400000000"
    and n3: "now world_stale - 1700000000000000 = 8640000000000"
    and n4: "now world_future - 1700000000000000 = - 3600000000"
    by (simp_all add: example_defs)
  note t = age_factor_days
  from t [of "project_of repo_normal" repo_normal commit1 "[]" world_bare
        1700000000000000 1700000000000000] a b f1 n1
  obtain d1 where d1: "86400000000 * d1 \<le> 3600000000" "3600000000 < 86400000000 * (d1 + 1)"
      "snd (days_since_commits world_bare (project_of repo_normal)) = d1"
      "age_factor world_bare (project_of repo_normal) = min 100 (2 * d1)"
    by auto
  have "timedelta_days (3600000000) = 0" by (simp add: timedelta_days_def)
  moreover from d1(1,2) have "timedelta_days (3600000000) = d1" by (rule timedelta_days_unique)
  ultimately have "d1 = 0" by simp
  with d1 have 1: "snd (days_since_commits world_bare (project_of repo_normal)) = 0 \<and>
      age_factor world_bare (project_of repo_normal) = 0" by simp
  from t [of "project_of repo_normal" repo_normal commit1 "[]" world_week
        1700000000000000 1700000000000000] a b f2 n2
  obtain d2 where d2: "86400000000 * d2 \<le> 302400000000" "302400000000 < 86400000000 * (d2 + 1)"
      "snd (days_since_commits world_week (project_of repo_normal)) = d2"
      "age_factor world_week (project_of repo_normal) = min 100 (2 * d2)"
    by auto
  have "timedelta_days (302400000000) = 3" by (simp add: timedelta_days_def)
  moreover from d2(1,2) have "timedelta_days (302400000000) = d2" by (rule timedelta_days_unique)
  ultimately have "d2 = 3" by simp
  with d2 have 2: "snd (days_since_commits world_week (project_of repo_normal)) = 3 \<and>
      age_factor world_week (project_of repo_normal) = 6" by simp
  from t [of "project_of repo_normal" repo_normal commit1 "[]" world_stale
        1700000000000000 1700000000000000] a b f3 n3
  obtain d3 where d3: "86400000000 * d3 \<le> 8640000000000" "8640000000000 < 86400000000 * (d3 + 1)"
      "snd (days_since_commits world_stale (project_of repo_normal)) = d3"
      "age_factor world_stale (project_of repo_normal) = min 100 (2 * d3)"
    by auto
  have "timedelta_days (8640000000000) = 100" by (simp add: timedelta_days_def)
  moreover from d3(1,2) have "timedelta_days (8640000000000) = d3" by (rule timedelta_days_unique)
  ultimately have "d3 = 100" by simp
  with d3 have 3: "snd (days_since_commits world_stale (project_of repo_normal)) = 100 \<and>
      age_factor world_stale (project_of repo_normal) = 100" by simp
  from t [of "project_of repo_normal" repo_normal commit1 "[]" world_future
        1700000000000000 1700000000000000] a b f4 n4
  obtain d4 where d4: "86400000000 * d4 \<le> - 3600000000" "- 3600000000 < 86400000000 * (d4 + 1)"
      "snd (days_since_commits world_future (project_of repo_normal)) = d4"
      "age_factor world_future (project_of repo_normal) = min 100 (2 * d4)"
    by auto
  have "timedelta_days (- 3600000000) = - 1" by (simp add: timedelta_days_def)
  moreover from d4(1,2) have "timedelta_days (- 3600000000) = d4" by (rule timedelta_days_unique)
  ultimately have "d4 = - 1" by simp
  with d4 have 4: "snd (days_since_commits world_future (project_of repo_normal)) = - 1 \<and>
      age_factor world_future (project_of repo_normal) = - 2" by simp
  have e: "repo (project_of repo_unborn) = Some repo_unborn"
    by (simp add: example_defs)
  have f: "rev_list repo_unborn ''HEAD'' = Inl ValueError"
    by (simp add: example_defs)
  from t [of "project_of repo_unborn" repo_unborn _ _ world_unborn _ _ ValueError] e f
  have 5: "days_since_commits world_unborn (project_of repo_unborn) = (1, 1) \<and>
      age_factor world_unborn (project_of repo_unborn) = 2" by simp
  have g: "repo (project_of repo_odd_root) = Some repo_odd_root"
    by (simp add: example_defs)
  have h: "rev_list repo_odd_root ''HEAD'' = Inr [commit1, commit_odd]"
    by (simp add: example_defs)
  have i: "fromtimestamp world_odd_root (committed_date commit_odd) = Inl ValueError"
    by (simp add: example_defs)
  from t [of "project_of repo_odd_root" repo_odd_root commit1 "[commit_odd]" world_odd_root
        _ _ ValueError] g h i
  have 6: "days_since_commits world_odd_root (project_of repo_odd_root) = (1, 1) \<and>
      age_factor world_odd_root (project_of repo_odd_root) = 2" by simp
  have j: "repo (project_of repo_odd_tip) = Some repo_odd_tip"
    by (simp add: example_defs)
  have k: "rev_list repo_odd_tip ''HEAD'' = Inr [commit_odd, commit1]"
    by (simp add: example_defs)
  have m: "fromtimestamp world_odd_tip (committed_date commit_odd) = Inl ValueError"
    by (simp add: example_defs)
  have o: "fromtimestamp world_odd_tip (committed_date commit1) = Inr 1700000000000000"
    by (simp add: example_defs)
  from t [of "project_of repo_odd_tip" repo_odd_tip commit_odd "[commit1]" world_odd_tip
        1700000000000000 _ ValueError] j k m o
  have 7: "snd (days_since_commits world_odd_tip (project_of repo_odd_tip)) = 1 \<and>
      age_factor world_odd_tip (project_of repo_odd_tip) = 2" by simp
  from a b f1 n1 n2 n3 n4 1 2 3 4 e f 5 g h i 6 j k m 7 show ?thesis by simp
qed

subsection \<open>Repositories without commits\<close>

text \<open>
  C5. A repository that opens, is not bare and has no commit gives a project whose status
  holds the branch \<^verbatim>\<open>"-"\<close>, not dirty, no last commit and the counts 0 and 0, with README
  score 0 and progress 0. Nothing else is looked at: the result is the same whatever the
  directory tree, the README and the commit listings are.
\<close>

theorem unborn_head_record:
  assumes "open_repo w p = Inr r" and "\<not> bare r" and "\<not> head_is_valid r"
  shows "GitProject_init w p =
    Inr \<lparr>path = p, name = path_name p, repo = Some r,
         status = [''active_branch'' \<mapsto> PyStr ''-'', ''is_dirty'' \<mapsto> PyBool False,
                   ''last_commit'' \<mapsto> PyNone, ''commits_behind'' \<mapsto> PyInt 0,
                   ''commits_ahead'' \<mapsto> PyInt 0],
         progress = 0, readme_score = 0\<rparr>"
  using assms by (simp add: GitProject_init_def GitProject_new_def init_try_def gather_info_def)

theorem unborn_head_record_witness:
  "open_repo world_unborn [''new''] = Inr repo_unborn \<and> \<not> bare repo_unborn \<and>
   \<not> head_is_valid repo_unborn \<and>
   lookup (fs world_unborn) [''new'', ''README.md''] = Some (Dir []) \<and>
   GitProject_init world_unborn [''new''] =
     Inr \<lparr>path = [''new''], name = ''new'', repo = Some repo_unborn,
          status = [''active_branch'' \<mapsto> PyStr ''-'', ''is_dirty'' \<mapsto> PyBool False,
                    ''last_commit'' \<mapsto> PyNone, ''commits_behind'' \<mapsto> PyInt 0,
                    ''commits_ahead'' \<mapsto> PyInt 0],
          progress = 0, readme_score = 0\<rparr>"
proof -
  have a: "open_repo world_unborn [''new''] = Inr repo_unborn"
    by (simp add: example_defs)
  have b: "\<not> bare repo_unborn" by (simp add: example_defs)
  have c: "\<not> head_is_valid repo_unborn" by (simp add: head_is_valid_def example_defs)
  have d: "lookup (fs world_unborn) [''new'', ''README.md''] = Some (Dir [])"
    by (simp add: example_defs)
  from unborn_head_record [OF a b c] a b c d show ?thesis
    by (simp add: path_name_def)
qed

subsection \<open>Scanning twice\<close>

lemma scan_loop_base: "base_dir (fst (scan_loop w ps s)) = base_dir s"
  by (induction ps arbitrary: s) (auto simp: Let_def split: sum.splits)

lemma scan_projects_base: "base_dir a = base_dir b \<Longrightarrow> scan_projects w a = scan_projects w b"
proof -
  assume h: "base_dir a = base_dir b"
  have "a\<lparr>projects := []\<rparr> = b\<lparr>projects := []\<rparr>"
    using h by (cases a, cases b) simp
  then show ?thesis
    unfolding scan_projects_def h by (rule arg_cong)
qed

text \<open>
  C8. In a fixed environment a second scan gives what the first one gave, projects and
  exception alike, and a scan does not depend on the projects the scope held before: nothing
  accumulates and nothing is reused.
\<close>

theorem scan_twice_same:
  "scan_projects w (fst (scan_projects w s)) = scan_projects w s \<and>
   scan_projects w (s\<lparr>projects := ps\<rparr>) = scan_projects w s"
proof
  have "base_dir (fst (scan_projects w s)) = base_dir s"
    by (simp add: scan_projects_def scan_loop_base)
  then show "scan_projects w (fst (scan_projects w s)) = scan_projects w s"
    by (rule scan_projects_base)
  show "scan_projects w (s\<lparr>projects := ps\<rparr>) = scan_projects w s"
    by (rule scan_projects_base) simp
qed

theorem scan_twice_same_witness:
  "scan_projects world_mixed (fst (scan_projects world_mixed (GitScope_init [])))
     = scan_projects world_mixed (GitScope_init []) \<and>
   length (projects (fst (scan_projects world_mixed
     (fst (scan_projects world_mixed (GitScope_init [])))))) = 1"
proof -
  have "length (projects (fst (scan_projects world_mixed (GitScope_init [])))) = 1"
    by (simp add: program_defs example_defs)
  with scan_twice_same [of world_mixed "GitScope_init []"] show ?thesis by simp
qed

subsection \<open>Ahead and behind\<close>

lemma gather_info_raises:
  assumes "repo self = Some r" and "head_commit r = Some c"
    and "active_branch r = Inr b" and "is_dirty r = Inr d"
    and "fromtimestamp w (committed_date c) = Inr t"
  shows "snd (gather_info w self) = (case analyze_readme w self of Inl e \<Rightarrow> Some e | Inr s \<Rightarrow> None)"
  using assms
  by (simp add: gather_info_def head_is_valid_def Let_def case_prod_beta
        analyze_readme_status split: sum.splits)

lemma gather_info_counts:
  assumes "repo self = Some r" and "head_commit r = Some c"
    and "active_branch r = Inr b" and "is_dirty r = Inr d"
    and "fromtimestamp w (committed_date c) = Inr t"
  shows "status (fst (gather_info w self)) ''commits_behind'' = Some (PyInt (fst (behind_ahead r b))) \<and>
         status (fst (gather_info w self)) ''commits_ahead'' = Some (PyInt (snd (behind_ahead r b)))"
  using assms
  by (simp add: gather_info_def head_is_valid_def Let_def case_prod_beta split: sum.splits)

lemma gather_info_date_raises:
  assumes "repo self = Some r" and "head_commit r = Some c"
    and "active_branch r = Inr b" and "is_dirty r = Inr d"
    and "fromtimestamp w (committed_date c) = Inl e"
  shows "snd (gather_info w self) = Some e \<and>
         status (fst (gather_info w self)) ''commits_behind'' = status self ''commits_behind'' \<and>
         status (fst (gather_info w self)) ''commits_ahead'' = status self ''commits_ahead''"
  using assms
  by (simp add: gather_info_def head_is_valid_def Let_def)

lemma behind_ahead_failed:
  "rev_list r b = Inl e \<or> rev_list r (''origin/'' @ b) = Inl e \<Longrightarrow> behind_ahead r b = (0, 0)"
  by (auto simp: behind_ahead_def split: sum.splits)

lemma behind_ahead_listed:
  "rev_list r b = Inr ls \<Longrightarrow> rev_list r (''origin/'' @ b) = Inr os \<Longrightarrow>
   behind_ahead r b = (int (length (filter (\<lambda>c. c \<notin> set ls) os)),
                       int (length (filter (\<lambda>c. c \<notin> set os) ls)))"
  by (simp add: behind_ahead_def)

lemma length_filter_card: "distinct xs \<Longrightarrow> length (filter (\<lambda>c. c \<notin> A) xs) = card (set xs - A)"
proof -
  assume d: "distinct xs"
  have s: "set (filter (\<lambda>c. c \<notin> A) xs) = set xs - A" by auto
  from d have "distinct (filter (\<lambda>c. c \<notin> A) xs)" by simp
  then have "card (set (filter (\<lambda>c. c \<notin> A) xs)) = length (filter (\<lambda>c. c \<notin> A) xs)"
    by (rule distinct_card)
  then show ?thesis by (simp only: s)
qed

text \<open>
  C4. For a repository with a commit, where the branch, the dirty flag and the date of the tip
  are read without exception, the comparison with \<^verbatim>\<open>origin/<branch>\<close> never raises:
  \<^verbatim>\<open>gather_info\<close> raises exactly when reading the README does. The status holds the two counts. Both are 0 when either name fails to list; when both
  list, \<^verbatim>\<open>commits_behind\<close> counts the commits of \<^verbatim>\<open>origin/<branch>\<close> that the branch does not
  reach and \<^verbatim>\<open>commits_ahead\<close> the commits of the branch that \<^verbatim>\<open>origin/<branch>\<close> does not
  reach.
\<close>

theorem ahead_behind_best_effort:
  assumes "repo self = Some r" and "head_commit r = Some c"
    and "active_branch r = Inr b" and "is_dirty r = Inr d"
    and "fromtimestamp w (committed_date c) = Inr t"
  shows "snd (gather_info w self)
           = (case analyze_readme w self of Inl e \<Rightarrow> Some e | Inr sc \<Rightarrow> None) \<and>
         status (fst (gather_info w self)) ''commits_behind''
           = Some (PyInt (fst (behind_ahead r b))) \<and>
         status (fst (gather_info w self)) ''commits_ahead''
           = Some (PyInt (snd (behind_ahead r b))) \<and>
         (rev_list r b = Inl e \<or> rev_list r (''origin/'' @ b) = Inl e \<longrightarrow>
            behind_ahead r b = (0, 0)) \<and>
         (rev_list r b = Inr ls \<and> rev_list r (''origin/'' @ b) = Inr os \<longrightarrow>
            behind_ahead r b = (int (length (filter (\<lambda>c. c \<notin> set ls) os)),
                                int (length (filter (\<lambda>c. c \<notin> set os) ls))) \<and>
            (distinct ls \<and> distinct os \<longrightarrow>
               behind_ahead r b = (int (card (set os - set ls)), int (card (set ls - set os)))))"
proof (intro conjI impI)
  show "snd (gather_info w self)
           = (case analyze_readme w self of Inl e \<Rightarrow> Some e | Inr sc \<Rightarrow> None)"
    using assms by (rule gather_info_raises)
  show "status (fst (gather_info w self)) ''commits_behind''
           = Some (PyInt (fst (behind_ahead r b)))"
    using gather_info_counts [OF assms] by simp
  show "status (fst (gather_info w self)) ''commits_ahead''
           = Some (PyInt (snd (behind_ahead r b)))"
    using gather_info_counts [OF assms] by simp
next
  assume "rev_list r b = Inl e \<or> rev_list r (''origin/'' @ b) = Inl e"
  then show "behind_ahead r b = (0, 0)" by (rule behind_ahead_failed)
next
  assume h: "rev_list r b = Inr ls \<and> rev_list r (''origin/'' @ b) = Inr os"
  then show l: "behind_ahead r b = (int (length (filter (\<lambda>c. c \<notin> set ls) os)),
                                int (length (filter (\<lambda>c. c \<notin> set os) ls)))"
    by (simp add: behind_ahead_listed)
  assume "distinct ls \<and> distinct os"
  then show "behind_ahead r b = (int (card (set os - set ls)), int (card (set ls - set os)))"
    using l by (simp add: length_filter_card)
qed

theorem ahead_behind_best_effort_witness:
  "repo (project_of repo_tracking) = Some repo_tracking \<and>
   head_commit repo_tracking = Some commit3 \<and>
   active_branch repo_tracking = Inr ''main'' \<and> is_dirty repo_tracking = Inr True \<and>
   rev_list repo_tracking ''main'' = Inr [commit3, commit2, commit1] \<and>
   fromtimestamp world_tracking (committed_date commit3) = Inr 1700172800000000 \<and>
   rev_list repo_tracking ''origin/main'' = Inr [commit5, commit4, commit2, commit1] \<and>
   snd (gather_info world_tracking (project_of repo_tracking)) = None \<and>
   status (fst (gather_info world_tracking (project_of repo_tracking))) ''commits_behind''
     = Some (PyInt 2) \<and>
   status (fst (gather_info world_tracking (project_of repo_tracking))) ''commits_ahead''
     = Some (PyInt 1) \<and>
   repo (project_of repo_normal) = Some repo_normal \<and>
   rev_list repo_normal ''origin/main'' = Inl GitCommandError \<and>
   snd (gather_info world_bare (project_of repo_normal)) = None \<and>
   status (fst (gather_info world_bare (project_of repo_normal))) ''commits_behind''
     = Some (PyInt 0) \<and>
   status (fst (gather_info world_bare (project_of repo_normal))) ''commits_ahead''
     = Some (PyInt 0)"
proof -
  have a: "repo (project_of repo_tracking) = Some repo_tracking"
    by (simp add: example_defs)
  have b: "head_commit repo_tracking = Some commit3" by (simp add: example_defs)
  have c: "active_branch repo_tracking = Inr ''main''" by (simp add: example_defs)
  have d: "is_dirty repo_tracking = Inr True" by (simp add: example_defs)
  have ft: "fromtimestamp world_tracking (committed_date commit3) = Inr 1700172800000000"
    by (simp add: example_defs)
  have e: "rev_list repo_tracking ''main'' = Inr [commit3, commit2, commit1]"
    by (simp add: example_defs)
  have f: "rev_list repo_tracking ''origin/main'' = Inr [commit5, commit4, commit2, commit1]"
    by (simp add: example_defs)
  have g: "analyze_readme world_tracking (project_of repo_tracking) = Inr 5"
    by (simp add: program_defs example_defs split_words)
  have k: "distinct [commit3, commit2, commit1] \<and> distinct [commit5, commit4, commit2, commit1]"
    by (simp add: example_defs)
  have n: "card (set [commit5, commit4, commit2, commit1] - set [commit3, commit2, commit1]) = 2 \<and>
      card (set [commit3, commit2, commit1] - set [commit5, commit4, commit2, commit1]) = 1"
    by (simp add: example_defs insert_Diff_if)
  note inst = ahead_behind_best_effort [OF a b c d ft, of _
      "[commit3, commit2, commit1]" "[commit5, commit4, commit2, commit1]"]
  have f2: "rev_list repo_tracking (''origin/'' @ ''main'') = Inr [commit5, commit4, commit2, commit1]"
    by (simp add: example_defs)
  from inst e f2 k
  have "behind_ahead repo_tracking ''main''
      = (int (card (set [commit5, commit4, commit2, commit1] - set [commit3, commit2, commit1])),
         int (card (set [commit3, commit2, commit1] - set [commit5, commit4, commit2, commit1])))"
    by blast
  with n have ba: "behind_ahead repo_tracking ''main'' = (2, 1)" by simp
  from inst g ba
  have 1: "snd (gather_info world_tracking (project_of repo_tracking)) = None \<and>
   status (fst (gather_info world_tracking (project_of repo_tracking))) ''commits_behind''
     = Some (PyInt 2) \<and>
   status (fst (gather_info world_tracking (project_of repo_tracking))) ''commits_ahead''
     = Some (PyInt 1)"
    by simp
  have a': "repo (project_of repo_normal) = Some repo_normal" by (simp add: example_defs)
  have b': "head_commit repo_normal = Some commit1" by (simp add: example_defs)
  have c': "active_branch repo_normal = Inr ''main''" by (simp add: example_defs)
  have d': "is_dirty repo_normal = Inr False" by (simp add: example_defs)
  have ft': "fromtimestamp world_bare (committed_date commit1) = Inr 1700000000000000"
    by (simp add: example_defs)
  have f': "rev_list repo_normal ''origin/main'' = Inl GitCommandError"
    by (simp add: example_defs)
  have g': "analyze_readme world_bare (project_of repo_normal) = Inr 0"
    by (simp add: program_defs example_defs)
  from ahead_behind_best_effort [OF a' b' c' d' ft', of GitCommandError] f' g'
  have 2: "snd (gather_info world_bare (project_of repo_normal)) = None \<and>
   status (fst (gather_info world_bare (project_of repo_normal))) ''commits_behind''
     = Some (PyInt 0) \<and>
   status (fst (gather_info world_bare (project_of repo_normal))) ''commits_ahead''
     = Some (PyInt 0)"
    by simp
  from a b c d e f ft 1 a' f' 2 show ?thesis by blast
qed

subsection \<open>The progress score\<close>

lemma gather_info_scores:
  assumes "repo self = Some r" and "head_is_valid r" and "gather_info w self = (g, None)"
  shows "repo g = Some r \<and> path g = path self \<and> analyze_readme w self = Inr (readme_score g) \<and>
         progress g = calculate_progress w g"
proof -
  from assms(2) obtain c where c: "head_commit r = Some c"
    by (auto simp: head_is_valid_def)
  obtain b where b: "active_branch r = Inr b"
    using assms by (cases "active_branch r") (auto simp: gather_info_def)
  obtain d where d: "is_dirty r = Inr d"
    using assms b by (cases "is_dirty r") (auto simp: gather_info_def Let_def)
  obtain t where t: "fromtimestamp w (committed_date c) = Inr t"
    using assms b c d
    by (cases "fromtimestamp w (committed_date c)") (auto simp: gather_info_def Let_def)
  obtain sc where sc: "analyze_readme w self = Inr sc"
    using assms b c d t
    by (cases "analyze_readme w self")
       (auto simp: gather_info_def Let_def case_prod_beta analyze_readme_status)
  have "g = fst (gather_info w self)" using assms(3) by simp
  then show ?thesis
    using assms(1,2) b c d t sc
    by (simp add: gather_info_def Let_def case_prod_beta analyze_readme_status
        calculate_progress_def age_factor_update)
qed

lemma gather_info_repo: "repo (fst (gather_info w self)) = repo self"
  by (simp add: gather_info_def Let_def case_prod_beta
      split: option.splits sum.splits)

lemma init_try_scores:
  assumes "init_try w (GitProject_new p) = (g, None)" and "repo g = Some r" and "head_is_valid r"
  shows "analyze_readme w (GitProject_new p) = Inr (readme_score g) \<and>
         progress g = calculate_progress w g"
proof -
  obtain r' where o: "open_repo w p = Inr r'"
    using assms(1) by (cases "open_repo w p") (auto simp: init_try_def GitProject_new_def)
  have nb: "\<not> bare r'" using assms(1) o
    by (auto simp: init_try_def GitProject_new_def Let_def split: if_splits)
  let ?self = "(GitProject_new p)\<lparr>repo := Some r'\<rparr>"
  have gi: "gather_info w ?self = (g, None)"
    using assms(1) o nb by (simp add: init_try_def GitProject_new_def Let_def)
  have "repo g = repo ?self" using gather_info_repo [of w ?self] gi by simp
  then have "r' = r" using assms(2) by simp
  then have "repo ?self = Some r" by simp
  then have s: "repo g = Some r \<and> path g = path ?self \<and>
      analyze_readme w ?self = Inr (readme_score g) \<and> progress g = calculate_progress w g"
    using assms(3) gi by (rule gather_info_scores)
  have "analyze_readme w ?self = analyze_readme w (GitProject_new p)"
    by (simp add: analyze_readme_def)
  then show ?thesis using s by simp
qed

text \<open>
  C3, as the program has it. When extraction of a repository with a commit completes, the
  progress is the README score times 0.5 plus the age factor times 0.5. The README score lies
  between 0 and 100 and the age factor is at most 100, so the progress is at most 100; it is at
  least 0 when the days since the last commit are not negative. With a README that decodes,
  commits that are listed, dates of the oldest and the newest listed commit that convert, and
  a tip \<open>d\<close> whole days old, the progress is half of the words over ten capped at 100 plus
  half of twice \<open>d\<close> capped at 100. So a README of 2000 words and a tip less than a day old
  give README score 100, age factor 0 and progress 50.
\<close>

theorem progress_score_formula:
  assumes "init_try w (GitProject_new p) = (g, None)" and "repo g = Some r"
    and "head_is_valid r"
  shows "progress g = real_of_int (readme_score g) * 0.5 + real_of_int (age_factor w g) * 0.5 \<and>
         0 \<le> readme_score g \<and> readme_score g \<le> 100 \<and> age_factor w g \<le> 100 \<and>
         progress g \<le> 100 \<and>
         (0 \<le> snd (days_since_commits w g) \<longrightarrow> 0 \<le> progress g) \<and>
         (lookup (fs w) (joinpath p ''README.md'') = Some (File (Inr content)) \<and>
          rev_list r ''HEAD'' = Inr (c # cs) \<and>
          fromtimestamp w (committed_date (last (c # cs))) = Inr t0 \<and>
          fromtimestamp w (committed_date c) = Inr t \<and>
          86400000000 * d \<le> now w - t \<and> now w - t < 86400000000 * (d + 1) \<longrightarrow>
            readme_score g = min 100 (int (length (split content)) div 10) \<and>
            age_factor w g = min 100 (2 * d) \<and>
            progress g = real_of_int (min 100 (int (length (split content)) div 10)) / 2
                         + real_of_int (min 100 (2 * d)) / 2) \<and>
         (lookup (fs w) (joinpath p ''README.md'') = Some (File (Inr content)) \<and>
          length (split content) = 2000 \<and> rev_list r ''HEAD'' = Inr (c # cs) \<and>
          fromtimestamp w (committed_date (last (c # cs))) = Inr t0 \<and>
          fromtimestamp w (committed_date c) = Inr t \<and>
          0 \<le> now w - t \<and> now w - t < 86400000000 \<longrightarrow>
            readme_score g = 100 \<and> age_factor w g = 0 \<and> progress g = 50)"
proof -
  from init_try_scores [OF assms]
  have rd: "analyze_readme w (GitProject_new p) = Inr (readme_score g)"
    and pr: "progress g = calculate_progress w g" by simp_all
  have f: "progress g = real_of_int (readme_score g) * 0.5 + real_of_int (age_factor w g) * 0.5"
    using pr by (simp add: calculate_progress_def)
  from rd have lo: "0 \<le> readme_score g" and hi: "readme_score g \<le> 100"
    using analyze_readme_range by blast+
  have ah: "age_factor w g \<le> 100" by (simp add: age_factor_def)
  have ph: "progress g \<le> 100" using f hi ah by simp
  have pl: "0 \<le> snd (days_since_commits w g) \<longrightarrow> 0 \<le> progress g"
  proof
    assume "0 \<le> snd (days_since_commits w g)"
    then have "0 \<le> age_factor w g" by (simp add: age_factor_def)
    then show "0 \<le> progress g" using f lo by simp
  qed
  have gen: "lookup (fs w) (joinpath p ''README.md'') = Some (File (Inr content)) \<and>
          rev_list r ''HEAD'' = Inr (c # cs) \<and>
          fromtimestamp w (committed_date (last (c # cs))) = Inr t0 \<and>
          fromtimestamp w (committed_date c) = Inr t \<and>
          86400000000 * d \<le> now w - t \<and> now w - t < 86400000000 * (d + 1) \<longrightarrow>
            readme_score g = min 100 (int (length (split content)) div 10) \<and>
            age_factor w g = min 100 (2 * d) \<and>
            progress g = real_of_int (min 100 (int (length (split content)) div 10)) / 2
                         + real_of_int (min 100 (2 * d)) / 2" for d
  proof
    assume h: "lookup (fs w) (joinpath p ''README.md'') = Some (File (Inr content)) \<and>
          rev_list r ''HEAD'' = Inr (c # cs) \<and>
          fromtimestamp w (committed_date (last (c # cs))) = Inr t0 \<and>
          fromtimestamp w (committed_date c) = Inr t \<and>
          86400000000 * d \<le> now w - t \<and> now w - t < 86400000000 * (d + 1)"
    then have "lookup (fs w) (joinpath (path (GitProject_new p)) ''README.md'')
        = Some (File (Inr content))"
      by (simp add: GitProject_new_def)
    then have "analyze_readme w (GitProject_new p)
        = Inr (min 100 (int (length (split content)) div 10))"
      by (rule analyze_readme_file)
    with rd have rs: "readme_score g = min 100 (int (length (split content)) div 10)" by simp
    have "snd (days_since_commits w g) = timedelta_days (now w - t)"
      using assms(2) h days_listed [of g r c cs w t0 t] by simp
    also have "\<dots> = d" using h by (intro timedelta_days_unique) simp_all
    finally have af: "age_factor w g = min 100 (2 * d)"
      by (simp add: age_factor_def mult.commute)
    from f rs af
    show "readme_score g = min 100 (int (length (split content)) div 10) \<and>
            age_factor w g = min 100 (2 * d) \<and>
            progress g = real_of_int (min 100 (int (length (split content)) div 10)) / 2
                         + real_of_int (min 100 (2 * d)) / 2"
      by simp
  qed
  have sc: "lookup (fs w) (joinpath p ''README.md'') = Some (File (Inr content)) \<and>
          length (split content) = 2000 \<and> rev_list r ''HEAD'' = Inr (c # cs) \<and>
          fromtimestamp w (committed_date (last (c # cs))) = Inr t0 \<and>
          fromtimestamp w (committed_date c) = Inr t \<and>
          0 \<le> now w - t \<and> now w - t < 86400000000 \<longrightarrow>
            readme_score g = 100 \<and> age_factor w g = 0 \<and> progress g = 50"
  proof
    assume h: "lookup (fs w) (joinpath p ''README.md'') = Some (File (Inr content)) \<and>
          length (split content) = 2000 \<and> rev_list r ''HEAD'' = Inr (c # cs) \<and>
          fromtimestamp w (committed_date (last (c # cs))) = Inr t0 \<and>
          fromtimestamp w (committed_date c) = Inr t \<and>
          0 \<le> now w - t \<and> now w - t < 86400000000"
    then have "readme_score g = min 100 (int (length (split content)) div 10) \<and>
            age_factor w g = min 100 (2 * 0) \<and>
            progress g = real_of_int (min 100 (int (length (split content)) div 10)) / 2
                         + real_of_int (min 100 (2 * 0)) / 2"
      by (intro gen [of 0, rule_format]) simp
    with h show "readme_score g = 100 \<and> age_factor w g = 0 \<and> progress g = 50" by simp
  qed
  from f lo hi ah ph pl gen [of d] sc show ?thesis by blast
qed

text \<open>
  A commit dated one hour after the clock is minus one day old: with no README the age factor
  is -2 and the progress -1, below the range the specification gives.
\<close>

theorem progress_negative_for_future_commit:
  "init_try world_future (GitProject_new [''app''])
     = (extracted world_future [''app''], None) \<and>
   repo (extracted world_future [''app'']) = Some repo_normal \<and>
   head_is_valid repo_normal \<and>
   rev_list repo_normal ''HEAD'' = Inr [commit1] \<and>
   readme_score (extracted world_future [''app'']) = 0 \<and>
   age_factor world_future (extracted world_future [''app'']) = - 2 \<and>
   progress (extracted world_future [''app'']) = - 1 \<and>
   \<not> (0 \<le> progress (extracted world_future [''app'']))"
  by (simp add: program_defs example_defs)

text \<open>
  The scenario of the specification needs the dates to convert: with the same README and a tip
  one hour old, an oldest commit dated in the year 10000 leaves the age factor at 2 and the
  progress at 51.
\<close>

lemma progress_when_oldest_date_fails:
  "raised world_odd_root [''app''] = None \<and>
   readme_score (extracted world_odd_root [''app'']) = 100 \<and>
   age_factor world_odd_root (extracted world_odd_root [''app'']) = 2 \<and>
   progress (extracted world_odd_root [''app'']) = 51"
  by (simp add: program_defs example_defs split_words)

theorem progress_score_formula_witness:
  "init_try world_documented (GitProject_new [''app''])
     = (extracted world_documented [''app''], None) \<and>
   repo (extracted world_documented [''app'']) = Some repo_normal \<and>
   head_is_valid repo_normal \<and>
   lookup (fs world_documented) (joinpath [''app''] ''README.md'')
     = Some (File (Inr (words 2000))) \<and>
   length (split (words 2000)) = 2000 \<and>
   rev_list repo_normal ''HEAD'' = Inr [commit1] \<and>
   fromtimestamp world_documented (committed_date commit1) = Inr 1700000000000000 \<and>
   now world_documented - 1700000000000000 = 3600000000 \<and>
   readme_score (extracted world_documented [''app'']) = 100 \<and>
   age_factor world_documented (extracted world_documented [''app'']) = 0 \<and>
   progress (extracted world_documented [''app'']) = 50 \<and>
   init_try world_week (GitProject_new [''app'']) = (extracted world_week [''app''], None) \<and>
   repo (extracted world_week [''app'']) = Some repo_normal \<and>
   lookup (fs world_week) (joinpath [''app''] ''README.md'') = Some (File (Inr (prose 30))) \<and>
   length (split (prose 30)) = 120 \<and>
   now world_week - 1700000000000000 = 302400000000 \<and>
   readme_score (extracted world_week [''app'']) = 12 \<and>
   age_factor world_week (extracted world_week [''app'']) = 6 \<and>
   progress (extracted world_week [''app'']) = 9"
proof -
  have c: "head_is_valid repo_normal" by (simp add: head_is_valid_def example_defs)
  have f: "rev_list repo_normal ''HEAD'' = Inr [commit1]" by (simp add: example_defs)
  have l: "last [commit1] = commit1" by simp
  have a: "init_try world_documented (GitProject_new [''app''])
     = (extracted world_documented [''app''], None)"
    by (simp add: program_defs example_defs split_words)
  have b: "repo (extracted world_documented [''app'']) = Some repo_normal"
    by (simp add: program_defs example_defs split_words)
  have d: "lookup (fs world_documented) (joinpath [''app''] ''README.md'')
     = Some (File (Inr (words 2000)))"
    by (simp add: program_defs example_defs)
  have e: "length (split (words 2000)) = 2000" by (simp add: split_words)
  have t1: "fromtimestamp world_documented (committed_date commit1) = Inr 1700000000000000"
    by (simp add: example_defs)
  have g: "now world_documented - 1700000000000000 = 3600000000"
    by (simp add: example_defs)
  from progress_score_formula [OF a b c, of "words 2000" commit1 "[]" 1700000000000000
      1700000000000000] d e f l t1 g
  have 1: "readme_score (extracted world_documented [''app'']) = 100 \<and>
   age_factor world_documented (extracted world_documented [''app'']) = 0 \<and>
   progress (extracted world_documented [''app'']) = 50"
    by simp
  have a': "init_try world_week (GitProject_new [''app''])
     = (extracted world_week [''app''], None)"
    by (simp add: program_defs example_defs length_split_prose)
  have b': "repo (extracted world_week [''app'']) = Some repo_normal"
    by (simp add: program_defs example_defs length_split_prose)
  have d': "lookup (fs world_week) (joinpath [''app''] ''README.md'')
     = Some (File (Inr (prose 30)))"
    by (simp add: program_defs example_defs)
  have e': "length (split (prose 30)) = 120" by (simp add: length_split_prose)
  have t2: "fromtimestamp world_week (committed_date commit1) = Inr 1700000000000000"
    by (simp add: example_defs)
  have g': "now world_week - 1700000000000000 = 302400000000"
    by (simp add: example_defs)
  from progress_score_formula [OF a' b' c, of "prose 30" commit1 "[]" 1700000000000000
      1700000000000000 3] d' e' f l t2 g'
  have 2: "readme_score (extracted world_week [''app'']) = 12 \<and>
   age_factor world_week (extracted world_week [''app'']) = 6 \<and>
   progress (extracted world_week [''app'']) = 9"
    by simp
  from a b c d e f t1 g 1 a' b' d' e' g' 2 show ?thesis by blast
qed

subsection \<open>Exceptions during a scan\<close>

lemma init_isolated:
  "raised w p = None \<or> raised w p = Some InvalidGitRepositoryError \<Longrightarrow>
   GitProject_init w p = Inr (extracted w p)"
  by (auto simp: raised_def extracted_def GitProject_init_def split: prod.splits option.splits)

lemma init_propagates:
  "raised w p = Some e \<Longrightarrow> e \<noteq> InvalidGitRepositoryError \<Longrightarrow> GitProject_init w p = Inl e"
  by (auto simp: raised_def GitProject_init_def split: prod.splits option.splits)

lemma scan_loop_isolated:
  "\<forall>p \<in> set ps. raised w (parent p) = None \<or> raised w (parent p) = Some InvalidGitRepositoryError \<Longrightarrow>
   scan_loop w ps s =
     (s\<lparr>projects := projects s @ filter (\<lambda>g. repo g \<noteq> None) (map (\<lambda>p. extracted w (parent p)) ps)\<rparr>, None)"
proof (induction ps arbitrary: s)
  case Nil
  then show ?case by simp
next
  case (Cons p ps)
  then have i: "GitProject_init w (parent p) = Inr (extracted w (parent p))"
    by (intro init_isolated) simp
  have r: "\<forall>p \<in> set ps. raised w (parent p) = None \<or> raised w (parent p) = Some InvalidGitRepositoryError"
    using Cons.prems by simp
  show ?case
    by (simp add: i Cons.IH [OF r])
qed

text \<open>
  C2, as the program has it. The constructor catches InvalidGitRepositoryError and nothing else.
  A candidate whose extraction raises that exception does not end the scan: the loop goes on
  with the candidates that follow. When no candidate raises another exception, the scan
  returns without exception and holds, in the order of the walk, the project of every
  candidate whose repository was stored.
\<close>

theorem invalid_repository_isolated:
  "(raised w (parent p) = Some InvalidGitRepositoryError \<longrightarrow>
      scan_loop w (p # ps) s =
        scan_loop w ps
          (if repo (extracted w (parent p)) \<noteq> None
           then s\<lparr>projects := projects s @ [extracted w (parent p)]\<rparr> else s)) \<and>
   ((\<forall>p \<in> set (rglob (fs w) (base_dir s) ''.git'').
        raised w (parent p) = None \<or> raised w (parent p) = Some InvalidGitRepositoryError) \<longrightarrow>
      scan_projects w s =
        (s\<lparr>projects := filter (\<lambda>g. repo g \<noteq> None)
                          (map (\<lambda>p. extracted w (parent p)) (rglob (fs w) (base_dir s) ''.git''))\<rparr>,
         None))"
proof (intro conjI impI)
  assume "raised w (parent p) = Some InvalidGitRepositoryError"
  then have "GitProject_init w (parent p) = Inr (extracted w (parent p))"
    by (intro init_isolated) simp
  then show "scan_loop w (p # ps) s =
        scan_loop w ps
          (if repo (extracted w (parent p)) \<noteq> None
           then s\<lparr>projects := projects s @ [extracted w (parent p)]\<rparr> else s)"
    by simp
next
  assume "\<forall>p \<in> set (rglob (fs w) (base_dir s) ''.git'').
        raised w (parent p) = None \<or> raised w (parent p) = Some InvalidGitRepositoryError"
  then show "scan_projects w s =
        (s\<lparr>projects := filter (\<lambda>g. repo g \<noteq> None)
                          (map (\<lambda>p. extracted w (parent p)) (rglob (fs w) (base_dir s) ''.git''))\<rparr>,
         None)"
    unfolding scan_projects_def by (simp add: scan_loop_isolated)
qed

theorem invalid_repository_isolated_witness:
  "rglob (fs world_mixed) [] ''.git'' = [[''junk'', ''.git''], [''app'', ''.git'']] \<and>
   raised world_mixed (parent [''junk'', ''.git'']) = Some InvalidGitRepositoryError \<and>
   raised world_mixed (parent [''app'', ''.git'']) = None \<and>
   scan_loop world_mixed [[''junk'', ''.git''], [''app'', ''.git'']] (GitScope_init [])
     = scan_loop world_mixed [[''app'', ''.git'']] (GitScope_init []) \<and>
   scan_projects world_mixed (GitScope_init [])
     = (\<lparr>base_dir = [], projects = [extracted world_mixed [''app'']]\<rparr>, None)"
proof -
  have a: "rglob (fs world_mixed) [] ''.git'' = [[''junk'', ''.git''], [''app'', ''.git'']]"
    by (simp add: program_defs example_defs)
  have b: "raised world_mixed (parent [''junk'', ''.git'']) = Some InvalidGitRepositoryError"
    by (simp add: program_defs example_defs)
  have c: "raised world_mixed (parent [''app'', ''.git'']) = None"
    by (simp add: program_defs example_defs)
  have d: "repo (extracted world_mixed (parent [''junk'', ''.git''])) = None"
    by (simp add: program_defs example_defs)
  have e: "repo (extracted world_mixed (parent [''app'', ''.git''])) \<noteq> None"
    by (simp add: program_defs example_defs)
  have f: "parent [''app'', ''.git''] = [''app'']" by (simp add: parent_def)
  have g: "base_dir (GitScope_init []) = []" by (simp add: GitScope_init_def)
  note inst = invalid_repository_isolated [of world_mixed "[''junk'', ''.git'']"
      "[[''app'', ''.git'']]" "GitScope_init []"]
  from inst b d
  have 1: "scan_loop world_mixed [[''junk'', ''.git''], [''app'', ''.git'']] (GitScope_init [])
     = scan_loop world_mixed [[''app'', ''.git'']] (GitScope_init [])"
    by simp
  from inst a b c g
  have "scan_projects world_mixed (GitScope_init []) =
        ((GitScope_init [])\<lparr>projects := filter (\<lambda>g. repo g \<noteq> None)
           (map (\<lambda>p. extracted world_mixed (parent p))
              (rglob (fs world_mixed) (base_dir (GitScope_init [])) ''.git''))\<rparr>, None)"
    by simp
  with a d e f g
  have 2: "scan_projects world_mixed (GitScope_init [])
     = (\<lparr>base_dir = [], projects = [extracted world_mixed [''app'']]\<rparr>, None)"
    by (simp add: GitScope_init_def)
  from a b c 1 2 show ?thesis by blast
qed

text \<open>
  A detached HEAD makes \<^verbatim>\<open>active_branch\<close> raise TypeError, which the constructor does not
  catch: the scan ends with that exception, and the normal repository \<^verbatim>\<open>app\<close> that follows
  gets no record.
\<close>

theorem detached_head_aborts_scan:
  "rglob (fs world_detached) [] ''.git'' = [[''old'', ''.git''], [''app'', ''.git'']] \<and>
   raised world_detached [''old''] = Some TypeError \<and>
   raised world_detached [''app''] = None \<and>
   repo (extracted world_detached [''app'']) = Some repo_normal \<and>
   scan_projects world_detached (GitScope_init [])
     = (\<lparr>base_dir = [], projects = []\<rparr>, Some TypeError)"
  by (simp add: program_defs example_defs)

text \<open>
  C1 says that a bare repository is reported as not valid and left out of the scan, so that a
  bare and a normal repository give one record. The constructor stores the repository before
  it tests \<^verbatim>\<open>bare\<close>, so the project of the bare repository \<^verbatim>\<open>mirror\<close> keeps it, with an
  empty status, and the scan appends it: two records.
\<close>

theorem bare_repository_is_listed:
  "rglob (fs world_bare) [] ''.git'' = [[''mirror'', ''.git''], [''app'', ''.git'']] \<and>
   open_repo world_bare [''mirror''] = Inr repo_bare \<and> bare repo_bare \<and>
   GitProject_init world_bare [''mirror'']
     = Inr ((GitProject_new [''mirror''])\<lparr>repo := Some repo_bare\<rparr>) \<and>
   snd (scan_projects world_bare (GitScope_init [])) = None \<and>
   map name (projects (fst (scan_projects world_bare (GitScope_init [])))) = [''mirror'', ''app''] \<and>
   length (projects (fst (scan_projects world_bare (GitScope_init [])))) = 2"
  by (simp add: program_defs example_defs)

subsection \<open>The walk of the directory tree\<close>

lemma entries_nonempty: "(q, m) \<in> set (entries n) \<Longrightarrow> q \<noteq> []"
  by (induction n arbitrary: q m rule: entries.induct) auto

lemma map_of_fst: "(map_of es k \<noteq> None) = (k \<in> fst ` set es)"
  by (simp add: map_of_eq_None_iff)

lemma select_from_sound:
  "x \<in> set (select_from pat p n) \<Longrightarrow>
   \<exists>q m. x = p @ q \<and> (q, m) \<in> set (entries n) \<and> last q = pat"
proof (induction pat p n arbitrary: x rule: select_from.induct)
  case (1 pat p c)
  then show ?case by simp
next
  case (2 pat p es)
  from "2.prems" consider
      (here) "map_of es pat \<noteq> None" "x = joinpath p pat"
    | (below) e where "e \<in> set es" "x \<in> set (select_from pat (joinpath p (fst e)) (snd e))"
    by (auto split: if_splits)
  then show ?case
  proof cases
    case here
    then obtain m where "(pat, m) \<in> set es" by (auto dest: map_of_SomeD)
    then have "([pat], m) \<in> set (entries (Dir es))" by force
    then show ?thesis using here by (auto simp: joinpath_def)
  next
    case below
    then obtain q m where q: "x = joinpath p (fst e) @ q" "(q, m) \<in> set (entries (snd e))"
        "last q = pat"
      using "2.IH" by blast
    then have "q \<noteq> []" by (auto dest: entries_nonempty)
    moreover have "(fst e # q, m) \<in> set (entries (Dir es))" using below(1) q(2) by force
    ultimately show ?thesis using q by (auto simp: joinpath_def)
  qed
qed

lemma select_from_complete:
  "(q, m) \<in> set (entries n) \<Longrightarrow> last q = pat \<Longrightarrow> p @ q \<in> set (select_from pat p n)"
proof (induction pat p n arbitrary: q m rule: select_from.induct)
  case (1 pat p c)
  then show ?case by simp
next
  case (2 pat p es)
  from "2.prems"(1) obtain e where e: "e \<in> set es"
    and "(q, m) = ([fst e], snd e) \<or>
         (\<exists>qm \<in> set (entries (snd e)). (q, m) = (fst e # fst qm, snd qm))"
    by auto
  then consider (here) "q = [fst e]"
    | (below) q' where "q = fst e # q'" "(q', m) \<in> set (entries (snd e))"
    by auto
  then show ?case
  proof cases
    case here
    then have "pat \<in> fst ` set es" using e "2.prems"(2) by auto
    then have "map_of es pat \<noteq> None" by (simp only: map_of_fst)
    then show ?thesis using here "2.prems"(2) by (simp add: joinpath_def)
  next
    case below
    then have "q' \<noteq> []" by (auto dest: entries_nonempty)
    then have "last q' = pat" using below "2.prems"(2) by simp
    then have "joinpath p (fst e) @ q' \<in> set (select_from pat (joinpath p (fst e)) (snd e))"
      using "2.IH" e below(2) by blast
    then show ?thesis using e below(1) by (auto simp: joinpath_def)
  qed
qed

lemma rglob_sound:
  "x \<in> set (rglob t p pat) \<Longrightarrow>
   \<exists>q m. x = p @ q \<and> (q, m) \<in> set (beneath t p) \<and> last q = pat"
proof -
  assume a: "x \<in> set (rglob t p pat)"
  then obtain es where l: "lookup t p = Some (Dir es)"
    by (cases "lookup t p"; cases "the (lookup t p)") (auto simp: rglob_def)
  then have "x \<in> set (select_from pat p (Dir es))" using a by (simp add: rglob_def)
  then obtain q m where "x = p @ q" "(q, m) \<in> set (entries (Dir es))" "last q = pat"
    using select_from_sound by blast
  then show ?thesis using l by (auto simp: beneath_def)
qed

lemma rglob_complete:
  "(q, m) \<in> set (beneath t p) \<Longrightarrow> last q = pat \<Longrightarrow> p @ q \<in> set (rglob t p pat)"
proof -
  assume a: "(q, m) \<in> set (beneath t p)" and b: "last q = pat"
  from a obtain es where l: "lookup t p = Some (Dir es)"
    by (cases "lookup t p"; cases "the (lookup t p)") (auto simp: beneath_def)
  then have "(q, m) \<in> set (entries (Dir es))" using a by (simp add: beneath_def)
  then have "p @ q \<in> set (select_from pat p (Dir es))" using b by (rule select_from_complete)
  then show ?thesis using l by (simp add: rglob_def)
qed

lemma scan_loop_keeps:
  "set (projects s) \<subseteq> set (projects (fst (scan_loop w ps s)))"
proof (induction ps arbitrary: s)
  case Nil
  then show ?case by simp
next
  case (Cons p ps)
  show ?case
  proof (cases "GitProject_init w (parent p)")
    case (Inl e)
    then show ?thesis by simp
  next
    case (Inr g)
    show ?thesis
    proof (cases "repo g \<noteq> None")
      case True
      have "set (projects s) \<subseteq> set (projects (s\<lparr>projects := projects s @ [g]\<rparr>))" by auto
      also have "\<dots> \<subseteq> set (projects (fst (scan_loop w ps (s\<lparr>projects := projects s @ [g]\<rparr>))))"
        by (rule Cons.IH)
      finally show ?thesis using Inr True by simp
    next
      case False
      then show ?thesis using Inr Cons.IH [of s] by simp
    qed
  qed
qed

lemma scan_loop_submits:
  "snd (scan_loop w ps s) = None \<Longrightarrow> p \<in> set ps \<Longrightarrow>
   \<exists>g. GitProject_init w (parent p) = Inr g \<and>
       (repo g \<noteq> None \<longrightarrow> g \<in> set (projects (fst (scan_loop w ps s))))"
proof (induction ps arbitrary: s)
  case Nil
  then show ?case by simp
next
  case (Cons a ps)
  show ?case
  proof (cases "GitProject_init w (parent a)")
    case (Inl e)
    then show ?thesis using Cons.prems by simp
  next
    case (Inr g)
    let ?s = "if repo g \<noteq> None then s\<lparr>projects := projects s @ [g]\<rparr> else s"
    have step: "scan_loop w (a # ps) s = scan_loop w ps ?s" using Inr by simp
    show ?thesis
    proof (cases "p = a")
      case True
      have "repo g \<noteq> None \<longrightarrow> g \<in> set (projects ?s)" by simp
      then have "repo g \<noteq> None \<longrightarrow> g \<in> set (projects (fst (scan_loop w ps ?s)))"
        using scan_loop_keeps [of ?s w ps] by blast
      then show ?thesis using True Inr step by simp
    next
      case False
      then have "p \<in> set ps" using Cons.prems by simp
      moreover have "snd (scan_loop w ps ?s) = None" using Cons.prems step by simp
      ultimately show ?thesis using Cons.IH [of ?s] step by simp
    qed
  qed
qed

text \<open>
  C9. When no entry beneath the base directory is named \<^verbatim>\<open>.git\<close>, the scan returns no
  project and no exception; the same holds when the base path does not exist.
\<close>

theorem scan_empty_without_markers:
  "((\<forall>qm \<in> set (beneath (fs w) (base_dir s)). last (fst qm) \<noteq> ''.git'') \<longrightarrow>
      scan_projects w s = (s\<lparr>projects := []\<rparr>, None)) \<and>
   (lookup (fs w) (base_dir s) = None \<longrightarrow> scan_projects w s = (s\<lparr>projects := []\<rparr>, None))"
proof (intro conjI impI)
  assume h: "\<forall>qm \<in> set (beneath (fs w) (base_dir s)). last (fst qm) \<noteq> ''.git''"
  have "rglob (fs w) (base_dir s) ''.git'' = []"
  proof (cases "rglob (fs w) (base_dir s) ''.git''")
    case Nil
    then show ?thesis .
  next
    case (Cons x xs)
    then have "x \<in> set (rglob (fs w) (base_dir s) ''.git'')" by simp
    then obtain q m where "(q, m) \<in> set (beneath (fs w) (base_dir s))" "last q = ''.git''"
      using rglob_sound by blast
    then show ?thesis using h by force
  qed
  then show "scan_projects w s = (s\<lparr>projects := []\<rparr>, None)"
    by (simp add: scan_projects_def)
next
  assume "lookup (fs w) (base_dir s) = None"
  then show "scan_projects w s = (s\<lparr>projects := []\<rparr>, None)"
    by (simp add: scan_projects_def rglob_def)
qed

theorem scan_empty_without_markers_witness:
  "list_all (\<lambda>qm. last (fst qm) \<noteq> ''.git'') (beneath (fs world_plain) []) \<and>
   beneath (fs world_plain) []
     = [([''notes''], Dir [(''todo.txt'', File (Inr (words 3)))]),
        ([''notes'', ''todo.txt''], File (Inr (words 3)))] \<and>
   scan_projects world_plain (GitScope_init []) = (GitScope_init [], None) \<and>
   lookup (fs world_plain) [''missing''] = None \<and>
   scan_projects world_plain (GitScope_init [''missing'']) = (GitScope_init [''missing''], None)"
proof -
  have a: "beneath (fs world_plain) []
     = [([''notes''], Dir [(''todo.txt'', File (Inr (words 3)))]),
        ([''notes'', ''todo.txt''], File (Inr (words 3)))]"
    by (simp add: beneath_def example_defs)
  then have b: "\<forall>qm \<in> set (beneath (fs world_plain) (base_dir (GitScope_init []))).
      last (fst qm) \<noteq> ''.git''"
    by (simp add: GitScope_init_def)
  have c: "lookup (fs world_plain) (base_dir (GitScope_init [''missing''])) = None"
    by (simp add: GitScope_init_def example_defs)
  from scan_empty_without_markers [of world_plain "GitScope_init []"] b
  have 1: "scan_projects world_plain (GitScope_init []) = (GitScope_init [], None)"
    by (simp add: GitScope_init_def)
  from scan_empty_without_markers [of world_plain "GitScope_init [''missing'']"] c
  have 2: "scan_projects world_plain (GitScope_init [''missing''])
      = (GitScope_init [''missing''], None)"
    by (simp add: GitScope_init_def)
  from a have 3: "list_all (\<lambda>qm. last (fst qm) \<noteq> ''.git'') (beneath (fs world_plain) [])"
    by simp
  from c have 4: "lookup (fs world_plain) [''missing''] = None"
    by (simp add: GitScope_init_def)
  from a 1 2 3 4 show ?thesis by blast
qed

lemma scan_loop_append:
  "\<forall>x \<in> set xs. raised w (parent x) = None \<or>
                 raised w (parent x) = Some InvalidGitRepositoryError \<Longrightarrow>
   scan_loop w (xs @ zs) s =
     scan_loop w zs
       (s\<lparr>projects := projects s @
            filter (\<lambda>g. repo g \<noteq> None) (map (\<lambda>p. extracted w (parent p)) xs)\<rparr>)"
proof (induction xs arbitrary: s)
  case Nil
  then show ?case by simp
next
  case (Cons p ps)
  then have i: "GitProject_init w (parent p) = Inr (extracted w (parent p))"
    by (intro init_isolated) simp
  have r: "\<forall>x \<in> set ps. raised w (parent x) = None \<or>
                 raised w (parent x) = Some InvalidGitRepositoryError"
    using Cons.prems by simp
  show ?case
    by (simp add: i Cons.IH [OF r])
qed

text \<open>
  C10, as the program has it. Markers are matched by name alone. Every entry beneath the base
  directory whose name is \<^verbatim>\<open>.git\<close>, directory or plain file, is among the paths the walk
  yields, nothing but such entries is yielded, and the parent of the path is the directory
  that contains the entry. That directory is given to the constructor when the loop reaches
  it, which it does when no candidate before it raised an exception other than
  InvalidGitRepositoryError: the scan then goes on as the constructor's answer for it says.
  So when the scan ends without exception, every such directory was given to the constructor,
  and its project is in the result if its repository was stored.
\<close>

theorem every_marker_is_candidate:
  assumes "(q, m) \<in> set (beneath (fs w) (base_dir s))" and "last q = ''.git''"
  shows "base_dir s @ q \<in> set (rglob (fs w) (base_dir s) ''.git'') \<and>
         parent (base_dir s @ q) = base_dir s @ butlast q \<and>
         (snd (scan_projects w s) = None \<longrightarrow>
            (\<exists>g. GitProject_init w (base_dir s @ butlast q) = Inr g \<and>
                 (repo g \<noteq> None \<longrightarrow> g \<in> set (projects (fst (scan_projects w s)))))) \<and>
         (\<forall>x \<in> set (rglob (fs w) (base_dir s) ''.git'').
            \<exists>q' m'. x = base_dir s @ q' \<and> (q', m') \<in> set (beneath (fs w) (base_dir s)) \<and>
                    last q' = ''.git'') \<and>
         (rglob (fs w) (base_dir s) ''.git'' = xs @ (base_dir s @ q) # ys \<and>
          (\<forall>x \<in> set xs. raised w (parent x) = None \<or>
                         raised w (parent x) = Some InvalidGitRepositoryError) \<longrightarrow>
            scan_projects w s =
              (case GitProject_init w (base_dir s @ butlast q) of
                 Inl e \<Rightarrow>
                   (s\<lparr>projects := filter (\<lambda>g. repo g \<noteq> None)
                                     (map (\<lambda>p. extracted w (parent p)) xs)\<rparr>, Some e)
               | Inr g \<Rightarrow>
                   scan_loop w ys
                     (s\<lparr>projects := filter (\<lambda>g. repo g \<noteq> None)
                                       (map (\<lambda>p. extracted w (parent p)) xs)
                                     @ (if repo g \<noteq> None then [g] else [])\<rparr>)))"
proof (intro conjI impI ballI)
  show c: "base_dir s @ q \<in> set (rglob (fs w) (base_dir s) ''.git'')"
    using assms by (rule rglob_complete)
  have "q \<noteq> []" using assms(1)
    by (auto simp: beneath_def dest: entries_nonempty split: option.splits)
  then show p: "parent (base_dir s @ q) = base_dir s @ butlast q"
    by (simp add: parent_def butlast_append)
  { assume "snd (scan_projects w s) = None"
    then have "snd (scan_loop w (rglob (fs w) (base_dir s) ''.git'') (s\<lparr>projects := []\<rparr>)) = None"
      by (simp add: scan_projects_def)
    from scan_loop_submits [OF this c]
    show "\<exists>g. GitProject_init w (base_dir s @ butlast q) = Inr g \<and>
            (repo g \<noteq> None \<longrightarrow> g \<in> set (projects (fst (scan_projects w s))))"
      using p by (simp add: scan_projects_def) }
  { assume h: "rglob (fs w) (base_dir s) ''.git'' = xs @ (base_dir s @ q) # ys \<and>
          (\<forall>x \<in> set xs. raised w (parent x) = None \<or>
                         raised w (parent x) = Some InvalidGitRepositoryError)"
    then have r: "\<forall>x \<in> set xs. raised w (parent x) = None \<or>
                         raised w (parent x) = Some InvalidGitRepositoryError"
      by simp
    have "scan_projects w s
        = scan_loop w (xs @ (base_dir s @ q) # ys) (s\<lparr>projects := []\<rparr>)"
      using h by (simp add: scan_projects_def)
    also have "\<dots> = scan_loop w ((base_dir s @ q) # ys)
        (s\<lparr>projects := filter (\<lambda>g. repo g \<noteq> None)
                           (map (\<lambda>p. extracted w (parent p)) xs)\<rparr>)"
      using scan_loop_append [OF r, of "(base_dir s @ q) # ys" "s\<lparr>projects := []\<rparr>"]
      by simp
    finally show "scan_projects w s =
              (case GitProject_init w (base_dir s @ butlast q) of
                 Inl e \<Rightarrow>
                   (s\<lparr>projects := filter (\<lambda>g. repo g \<noteq> None)
                                     (map (\<lambda>p. extracted w (parent p)) xs)\<rparr>, Some e)
               | Inr g \<Rightarrow>
                   scan_loop w ys
                     (s\<lparr>projects := filter (\<lambda>g. repo g \<noteq> None)
                                       (map (\<lambda>p. extracted w (parent p)) xs)
                                     @ (if repo g \<noteq> None then [g] else [])\<rparr>))"
      using p by (simp split: sum.splits) }
next
  fix x assume "x \<in> set (rglob (fs w) (base_dir s) ''.git'')"
  then show "\<exists>q' m'. x = base_dir s @ q' \<and> (q', m') \<in> set (beneath (fs w) (base_dir s)) \<and>
                    last q' = ''.git''"
    by (rule rglob_sound)
qed

text \<open>
  In \<open>world_detached\<close> the entry \<^verbatim>\<open>app/.git\<close> is a marker and \<^verbatim>\<open>app\<close> a repository whose
  extraction succeeds, but the candidate \<^verbatim>\<open>old\<close> before it raises TypeError: the scan ends
  there, \<^verbatim>\<open>app\<close> is never given to the constructor and has no project in the result.
\<close>

theorem marker_after_abort_is_skipped:
  "([''app'', ''.git''], Dir []) \<in> set (beneath (fs world_detached) []) \<and>
   last [''app'', ''.git''] = ''.git'' \<and>
   rglob (fs world_detached) [] ''.git'' = [[''old'', ''.git''], [''app'', ''.git'']] \<and>
   GitProject_init world_detached [''old''] = Inl TypeError \<and>
   GitProject_init world_detached [''app''] = Inr (extracted world_detached [''app'']) \<and>
   repo (extracted world_detached [''app'']) = Some repo_normal \<and>
   snd (scan_projects world_detached (GitScope_init [])) = Some TypeError \<and>
   projects (fst (scan_projects world_detached (GitScope_init []))) = [] \<and>
   extracted world_detached [''app'']
     \<notin> set (projects (fst (scan_projects world_detached (GitScope_init []))))"
  by (simp add: program_defs example_defs)

theorem every_marker_is_candidate_witness:
  "([''junk'', ''.git''], File (Inr [])) \<in> set (beneath (fs world_mixed) []) \<and>
   ([''app'', ''.git''], Dir []) \<in> set (beneath (fs world_mixed) []) \<and>
   [''junk'', ''.git''] \<in> set (rglob (fs world_mixed) [] ''.git'') \<and>
   [''app'', ''.git''] \<in> set (rglob (fs world_mixed) [] ''.git'') \<and>
   parent [''junk'', ''.git''] = [''junk''] \<and>
   snd (scan_projects world_mixed (GitScope_init [])) = None \<and>
   GitProject_init world_mixed [''junk''] = Inr (GitProject_new [''junk'']) \<and>
   GitProject_init world_mixed [''app''] = Inr (extracted world_mixed [''app'']) \<and>
   extracted world_mixed [''app'']
     \<in> set (projects (fst (scan_projects world_mixed (GitScope_init [])))) \<and>
   rglob (fs world_mixed) [] ''.git'' = [[''junk'', ''.git'']] @ [''app'', ''.git''] # [] \<and>
   raised world_mixed (parent [''junk'', ''.git'']) = Some InvalidGitRepositoryError \<and>
   scan_projects world_mixed (GitScope_init [])
     = (\<lparr>base_dir = [], projects = [extracted world_mixed [''app'']]\<rparr>, None)"
proof -
  have b: "base_dir (GitScope_init []) = []" by (simp add: GitScope_init_def)
  have a1: "([''junk'', ''.git''], File (Inr []))
      \<in> set (beneath (fs world_mixed) (base_dir (GitScope_init [])))"
    by (simp add: beneath_def GitScope_init_def example_defs)
  have a2: "([''app'', ''.git''], Dir [])
      \<in> set (beneath (fs world_mixed) (base_dir (GitScope_init [])))"
    by (simp add: beneath_def GitScope_init_def example_defs)
  have l1: "last [''junk'', ''.git''] = ''.git''" by simp
  have l2: "last [''app'', ''.git''] = ''.git''" by simp
  have n: "snd (scan_projects world_mixed (GitScope_init [])) = None"
    by (simp add: program_defs example_defs)
  have j: "GitProject_init world_mixed [''junk''] = Inr (GitProject_new [''junk''])"
    by (simp add: program_defs example_defs)
  have k: "GitProject_init world_mixed [''app''] = Inr (extracted world_mixed [''app''])"
    by (simp add: program_defs example_defs)
  have r: "repo (extracted world_mixed [''app'']) \<noteq> None"
    by (simp add: program_defs example_defs)
  have rj: "repo (extracted world_mixed [''junk'']) = None"
    by (simp add: program_defs example_defs)
  have g: "rglob (fs world_mixed) [] ''.git'' = [[''junk'', ''.git'']] @ [''app'', ''.git''] # []"
    by (simp add: program_defs example_defs)
  have e: "raised world_mixed (parent [''junk'', ''.git'']) = Some InvalidGitRepositoryError"
    by (simp add: program_defs example_defs)
  have pj: "parent [''junk'', ''.git''] = [''junk'']" by (simp add: parent_def)
  from every_marker_is_candidate [OF a1 l1] b
  have 1: "[''junk'', ''.git''] \<in> set (rglob (fs world_mixed) [] ''.git'') \<and>
      parent [''junk'', ''.git''] = [''junk'']"
    by simp
  note inst = every_marker_is_candidate [OF a2 l2, of "[[''junk'', ''.git'']]" "[]"]
  from inst b n
  have 2: "[''app'', ''.git''] \<in> set (rglob (fs world_mixed) [] ''.git'') \<and>
      (\<exists>g. GitProject_init world_mixed [''app''] = Inr g \<and>
         (repo g \<noteq> None \<longrightarrow>
            g \<in> set (projects (fst (scan_projects world_mixed (GitScope_init []))))))"
    by simp
  with k r have 3: "extracted world_mixed [''app'']
     \<in> set (projects (fst (scan_projects world_mixed (GitScope_init []))))"
    by auto
  from inst b g e
  have "scan_projects world_mixed (GitScope_init []) =
      (case GitProject_init world_mixed [''app''] of
         Inl e \<Rightarrow>
           ((GitScope_init [])\<lparr>projects := filter (\<lambda>g. repo g \<noteq> None)
               (map (\<lambda>p. extracted world_mixed (parent p)) [[''junk'', ''.git'']])\<rparr>, Some e)
       | Inr g \<Rightarrow>
           scan_loop world_mixed []
             ((GitScope_init [])\<lparr>projects := filter (\<lambda>g. repo g \<noteq> None)
                 (map (\<lambda>p. extracted world_mixed (parent p)) [[''junk'', ''.git'']])
               @ (if repo g \<noteq> None then [g] else [])\<rparr>))"
    by simp
  with k r rj pj
  have 4: "scan_projects world_mixed (GitScope_init [])
     = (\<lparr>base_dir = [], projects = [extracted world_mixed [''app'']]\<rparr>, None)"
    by (simp add: GitScope_init_def)
  from a1 a2 b 1 2 3 n j k g e 4 show ?thesis by simp
qed

end
